theory Spec2Isabelle
  imports Main
begin

section \<open>Values exchanged with the contract layer\<close>

text \<open>
  Objects the wrapper classes only hold and pass on (the contract wrapper, the
  provider, the storage, the ERC20 helper, receipts, metadata) are references.
\<close>

type_synonym ref = nat
type_synonym receipt = nat
type_synonym CurrencyValue = nat
type_synonym NFTMetadata = nat
type_synonym Offer = nat

text \<open>
  \<open>Price\<close> and \<open>Amount\<close> are the human-readable inputs (\<open>"1.5"\<close>); the
  classes never compute with them, they hand them to the normalisation routines.
\<close>

type_synonym Price = string
type_synonym Amount = string

text \<open>A \<open>Date\<close> is its \<open>getTime()\<close>: milliseconds since the epoch.\<close>

type_synonym Date = int

text \<open>
  ethers' \<open>BigNumberish\<close>: a JavaScript number (integral), a bigint, a string, a byte
  array, or a \<open>BigNumber\<close> object. The constructor matters to the code, because
  \<open>||\<close> tests JavaScript truthiness: \<open>0\<close>, \<open>0n\<close> and \<open>""\<close> are falsy, every
  object is truthy.
\<close>

datatype BigNumberish =
    JSNumber int
  | JSBigInt int
  | JSString string
  | JSBytes "nat list"
  | BigNumberObj int

fun truthy :: "BigNumberish \<Rightarrow> bool" where
  "truthy (JSNumber n) = (n \<noteq> 0)"
| "truthy (JSBigInt n) = (n \<noteq> 0)"
| "truthy (JSString s) = (s \<noteq> [])"
| "truthy (JSBytes bs) = True"
| "truthy (BigNumberObj n) = True"

text \<open>\<open>quantity || fallback\<close>, for an optional \<open>quantity\<close> (\<open>None\<close> is \<open>undefined\<close>).\<close>

definition or_else :: "BigNumberish option \<Rightarrow> BigNumberish \<Rightarrow> BigNumberish" where
  "or_else q fallback =
     (case q of None \<Rightarrow> fallback | Some v \<Rightarrow> if truthy v then v else fallback)"

text \<open>\<open>String.prototype.toLowerCase\<close> on the ASCII letters an address is written with.\<close>

definition lower_char :: "char \<Rightarrow> char" where
  "lower_char c =
     (case map_of (zip ''ABCDEFGHIJKLMNOPQRSTUVWXYZ'' ''abcdefghijklmnopqrstuvwxyz'') c of
        None \<Rightarrow> c
      | Some l \<Rightarrow> l)"

definition toLowerCase :: "string \<Rightarrow> string" where
  "toLowerCase s = map lower_char s"

text \<open>\<open>constants.AddressZero\<close> and \<open>constants.MaxUint256\<close> of ethers.\<close>

definition AddressZero :: string where
  "AddressZero = ''0x0000000000000000000000000000000000000000''"

definition MaxUint256 :: int where
  "MaxUint256 = 2 ^ 256 - 1"

datatype error =
    ListingNotFoundError string string
  | WrongListingTypeError string string string string
  | Error string
  | InvariantError string
  | TypeError string
  | NumericFault string
  | Rejected string

text \<open>The listing as the contract returns it (\<open>IMarketplace.ListingStruct\<close>).\<close>

record ListingStruct =
  listingId :: BigNumberish
  tokenOwner :: string
  assetContract :: string
  tokenId :: BigNumberish
  startTime :: BigNumberish
  endTime :: BigNumberish
  quantity :: BigNumberish
  currency :: string
  reservePricePerToken :: BigNumberish
  buyoutPricePerToken :: BigNumberish
  tokenType :: int
  listingType :: int

record OfferStruct =
  listingId :: BigNumberish
  offeror :: string
  quantityWanted :: BigNumberish
  currency :: string
  pricePerToken :: BigNumberish
  expirationTimestamp :: BigNumberish

text \<open>The argument of the contract's \<open>createListing\<close> (\<open>IMarketplace.ListingParametersStruct\<close>).\<close>

record ListingParametersStruct =
  assetContract :: string
  tokenId :: BigNumberish
  buyoutPricePerToken :: BigNumberish
  currencyToAccept :: string
  listingType :: int
  quantityToList :: BigNumberish
  reservePricePerToken :: BigNumberish
  secondsUntilEndTime :: BigNumberish
  startTime :: BigNumberish

record NewDirectListing =
  assetContractAddress :: string
  tokenId :: BigNumberish
  startTimestamp :: Date
  listingDurationInSeconds :: BigNumberish
  quantity :: BigNumberish
  currencyContractAddress :: string
  buyoutPricePerToken :: Price

record DirectListing =
  assetContractAddress :: string
  buyoutPrice :: BigNumberish
  currencyContractAddress :: string
  buyoutCurrencyValuePerToken :: CurrencyValue
  id' :: string
  tokenId :: BigNumberish
  quantity :: BigNumberish
  startTimeInSeconds :: BigNumberish
  asset :: NFTMetadata
  secondsUntilEnd :: BigNumberish
  sellerAddress :: string
  type' :: int

record TokenMintInput =
  toAddress :: string
  amount :: Amount

record TransactionResult =
  receipt :: receipt

record TransactionResultWithId =
  id' :: int
  receipt :: receipt

text \<open>
  Call overrides are a JavaScript object of numeric settings; \<open>{}\<close> is the empty list.
\<close>

type_synonym overrides = "(string \<times> int) list"

datatype tx_arg =
    ArgBigNumberish BigNumberish
  | ArgString string
  | ArgStruct ListingParametersStruct

section \<open>The world outside the three classes\<close>

text \<open>
  Everything the classes call but do not define: the contract wrapper and the contracts
  behind it, the helpers of \<open>common/currency\<close>, \<open>common/marketplace\<close> and
  \<open>common/nft\<close>, the \<open>Erc20\<close> helper, ethers' utilities and the constants of
  \<open>constants/contract\<close> and \<open>enums\<close>. They are parameters: the theorems hold for
  every behaviour of them. A call that can throw or reject returns a sum, \<open>Inl\<close> the
  error. One \<open>world\<close> describes the answers given during one method call; an
  answer depends on the arguments of the call only.

  Methods of the contract wrapper take the wrapper's reference first, helpers that
  take a provider take the provider's. \<open>getBlock_latest_timestamp\<close> is the
  \<open>timestamp\<close> of \<open>getBlock("latest")\<close>; \<open>parseLogs\<close> gives the \<open>listingId\<close>
  of each parsed event; \<open>supportsInterface\<close>, \<open>ownerOf\<close> and \<open>balanceOf\<close> are
  the calls on the contract at the given address; \<open>normalizeAmount\<close> is the method
  of the \<open>Erc20\<close> helper. \<open>setErc20Allowance\<close> may write into the overrides object
  it is handed, which the caller passes on to \<open>sendTransaction\<close>: it returns the
  overrides as they are after the call.
\<close>

record world =
  readContract_address :: "ref \<Rightarrow> string"
  readContract_listings :: "ref \<Rightarrow> BigNumberish \<Rightarrow> error + ListingStruct"
  readContract_offers :: "ref \<Rightarrow> BigNumberish \<Rightarrow> string \<Rightarrow> error + OfferStruct"
  readContract_primarySaleRecipient :: "ref \<Rightarrow> error + string"
  encodeFunctionData :: "ref \<Rightarrow> string \<Rightarrow> tx_arg list \<Rightarrow> error + string"
  sendTransaction :: "ref \<Rightarrow> string \<Rightarrow> tx_arg list \<Rightarrow> overrides option \<Rightarrow> error + receipt"
  multiCall :: "ref \<Rightarrow> string list \<Rightarrow> error + receipt"
  getProvider :: "ref \<Rightarrow> ref"
  getSignerOrProvider :: "ref \<Rightarrow> ref"
  getSignerAddress :: "ref \<Rightarrow> error + string"
  getCallOverrides :: "ref \<Rightarrow> error + overrides option"
  parseLogs :: "ref \<Rightarrow> string \<Rightarrow> receipt \<Rightarrow> error + int list"
  getBlock_latest_timestamp :: "ref \<Rightarrow> error + int"
  isNativeToken :: "string \<Rightarrow> bool"
  normalizePriceValue :: "ref \<Rightarrow> Price \<Rightarrow> string \<Rightarrow> error + int"
  setErc20Allowance :: "ref \<Rightarrow> int \<Rightarrow> string \<Rightarrow> overrides \<Rightarrow> error + overrides"
  fetchCurrencyValue :: "ref \<Rightarrow> string \<Rightarrow> BigNumberish \<Rightarrow> error + CurrencyValue"
  fetchTokenMetadataForContract ::
    "string \<Rightarrow> ref \<Rightarrow> BigNumberish \<Rightarrow> ref \<Rightarrow> error + NFTMetadata"
  handleTokenApproval ::
    "ref \<Rightarrow> string \<Rightarrow> string \<Rightarrow> BigNumberish \<Rightarrow> string \<Rightarrow> error + unit"
  isTokenApprovedForMarketplace ::
    "ref \<Rightarrow> string \<Rightarrow> string \<Rightarrow> BigNumberish \<Rightarrow> string \<Rightarrow> error + bool"
  mapOffer :: "ref \<Rightarrow> int \<Rightarrow> OfferStruct \<Rightarrow> error + Offer"
  validateNewListingParam :: "NewDirectListing \<Rightarrow> error + unit"
  supportsInterface :: "ref \<Rightarrow> string \<Rightarrow> string \<Rightarrow> error + bool"
  ownerOf :: "ref \<Rightarrow> string \<Rightarrow> BigNumberish \<Rightarrow> error + string"
  balanceOf :: "ref \<Rightarrow> string \<Rightarrow> string \<Rightarrow> BigNumberish \<Rightarrow> error + int"
  normalizeAmount :: "ref \<Rightarrow> Amount \<Rightarrow> error + int"
  isAddress :: "string \<Rightarrow> bool"
  BigNumber_from_other :: "BigNumberish \<Rightarrow> error + int"
  toString :: "BigNumberish \<Rightarrow> string"
  InterfaceId_IERC721 :: string
  InterfaceId_IERC1155 :: string
  ListingType_Direct :: int

text \<open>
  \<open>BigNumber.from\<close> of ethers v5: a \<open>BigNumber\<close> is returned as it is; a number
  must be below \<open>MAX_SAFE = 0x1fffffffffffff\<close> in absolute value; every other input
  is parsed, or rejected, by the library.
\<close>

definition MAX_SAFE :: int where
  "MAX_SAFE = 2 ^ 53 - 1"

definition BigNumber_from :: "world \<Rightarrow> BigNumberish \<Rightarrow> error + int" where
  "BigNumber_from w v =
     (case v of
        BigNumberObj n \<Rightarrow> Inr n
      | JSNumber n \<Rightarrow>
          if n \<ge> MAX_SAFE \<or> n \<le> - MAX_SAFE then Inl (NumericFault ''overflow'') else Inr n
      | _ \<Rightarrow> BigNumber_from_other w v)"

section \<open>Promises as state passing\<close>

text \<open>
  What a method does to the outside is recorded as a log of the calls it awaits, in
  order, and of its console output. The state a method runs in is the object it is
  called on (\<open>this\<close>) and the log so far; it ends with a thrown error (\<open>Inl\<close>, a
  rejected promise) or a value.
\<close>

datatype event =
    Call_listings ref BigNumberish
  | Call_offers ref BigNumberish string
  | Call_primarySaleRecipient ref
  | Call_sendTransaction ref string "tx_arg list" "overrides option"
  | Call_multiCall ref "string list"
  | Call_getSignerAddress ref
  | Call_getCallOverrides ref
  | Call_getBlock ref
  | Call_normalizePriceValue ref Price string
  | Call_setErc20Allowance ref int string overrides
  | Call_fetchCurrencyValue ref string BigNumberish
  | Call_fetchTokenMetadataForContract string ref BigNumberish ref
  | Call_handleTokenApproval ref string string BigNumberish string
  | Call_isTokenApprovedForMarketplace ref string string BigNumberish string
  | Call_mapOffer ref int OfferStruct
  | Call_supportsInterface ref string string
  | Call_ownerOf ref string BigNumberish
  | Call_balanceOf ref string string BigNumberish
  | Call_normalizeAmount ref Amount
  | Console_error string

type_synonym ('o, 'a) prog = "'o \<times> event list \<Rightarrow> (error + 'a) \<times> 'o \<times> event list"

definition returnP :: "'a \<Rightarrow> ('o, 'a) prog" where
  "returnP x = (\<lambda>s. (Inr x, s))"

definition throwP :: "error \<Rightarrow> ('o, 'a) prog" where
  "throwP e = (\<lambda>s. (Inl e, s))"

definition bindP :: "('o, 'a) prog \<Rightarrow> ('a \<Rightarrow> ('o, 'b) prog) \<Rightarrow> ('o, 'b) prog" where
  "bindP m f = (\<lambda>s. case m s of (Inl e, s') \<Rightarrow> (Inl e, s') | (Inr x, s') \<Rightarrow> f x s')"

text \<open>\<open>try { m } catch (err) { h err }\<close>\<close>

definition catchP :: "('o, 'a) prog \<Rightarrow> (error \<Rightarrow> ('o, 'a) prog) \<Rightarrow> ('o, 'a) prog" where
  "catchP m h = (\<lambda>s. case m s of (Inl e, s') \<Rightarrow> h e s' | (Inr x, s') \<Rightarrow> (Inr x, s'))"

text \<open>Reading \<open>this\<close>.\<close>

definition this :: "('o, 'o) prog" where
  "this = (\<lambda>s. (Inr (fst s), s))"

text \<open>A synchronous library call: it returns or throws, and leaves no trace.\<close>

definition liftP :: "error + 'a \<Rightarrow> ('o, 'a) prog" where
  "liftP r = (\<lambda>s. (r, s))"

text \<open>An awaited call to the outside: logged, then its answer or its rejection.\<close>

definition awaitP :: "event \<Rightarrow> error + 'a \<Rightarrow> ('o, 'a) prog" where
  "awaitP ev r = (\<lambda>s. (r, fst s, snd s @ [ev]))"

definition console_error :: "string \<Rightarrow> ('o, unit) prog" where
  "console_error msg = (\<lambda>s. (Inr (), fst s, snd s @ [Console_error msg]))"

text \<open>\<open>invariant(cond, msg)\<close> of tiny-invariant.\<close>

definition invariant :: "bool \<Rightarrow> string \<Rightarrow> ('o, unit) prog" where
  "invariant cond msg = (if cond then returnP () else throwP (InvariantError msg))"

subsection \<open>The awaited calls, each with its log entry\<close>

definition await_listings :: "world \<Rightarrow> ref \<Rightarrow> BigNumberish \<Rightarrow> ('o, ListingStruct) prog" where
  "await_listings w cw i = awaitP (Call_listings cw i) (readContract_listings w cw i)"

definition await_offers :: "world \<Rightarrow> ref \<Rightarrow> BigNumberish \<Rightarrow> string \<Rightarrow> ('o, OfferStruct) prog" where
  "await_offers w cw i a = awaitP (Call_offers cw i a) (readContract_offers w cw i a)"

definition await_primarySaleRecipient :: "world \<Rightarrow> ref \<Rightarrow> ('o, string) prog" where
  "await_primarySaleRecipient w cw =
     awaitP (Call_primarySaleRecipient cw) (readContract_primarySaleRecipient w cw)"

definition await_sendTransaction ::
  "world \<Rightarrow> ref \<Rightarrow> string \<Rightarrow> tx_arg list \<Rightarrow> overrides option \<Rightarrow> ('o, receipt) prog" where
  "await_sendTransaction w cw fn args ov =
     awaitP (Call_sendTransaction cw fn args ov) (sendTransaction w cw fn args ov)"

definition await_multiCall :: "world \<Rightarrow> ref \<Rightarrow> string list \<Rightarrow> ('o, receipt) prog" where
  "await_multiCall w cw encoded = awaitP (Call_multiCall cw encoded) (multiCall w cw encoded)"

definition await_getSignerAddress :: "world \<Rightarrow> ref \<Rightarrow> ('o, string) prog" where
  "await_getSignerAddress w cw = awaitP (Call_getSignerAddress cw) (getSignerAddress w cw)"

definition await_getCallOverrides :: "world \<Rightarrow> ref \<Rightarrow> ('o, overrides option) prog" where
  "await_getCallOverrides w cw = awaitP (Call_getCallOverrides cw) (getCallOverrides w cw)"

definition await_getBlock :: "world \<Rightarrow> ref \<Rightarrow> ('o, int) prog" where
  "await_getBlock w p = awaitP (Call_getBlock p) (getBlock_latest_timestamp w p)"

definition await_normalizePriceValue ::
  "world \<Rightarrow> ref \<Rightarrow> Price \<Rightarrow> string \<Rightarrow> ('o, int) prog" where
  "await_normalizePriceValue w p price c =
     awaitP (Call_normalizePriceValue p price c) (normalizePriceValue w p price c)"

definition await_setErc20Allowance ::
  "world \<Rightarrow> ref \<Rightarrow> int \<Rightarrow> string \<Rightarrow> overrides \<Rightarrow> ('o, overrides) prog" where
  "await_setErc20Allowance w cw v c ov =
     awaitP (Call_setErc20Allowance cw v c ov) (setErc20Allowance w cw v c ov)"

definition await_fetchCurrencyValue ::
  "world \<Rightarrow> ref \<Rightarrow> string \<Rightarrow> BigNumberish \<Rightarrow> ('o, CurrencyValue) prog" where
  "await_fetchCurrencyValue w p c v =
     awaitP (Call_fetchCurrencyValue p c v) (fetchCurrencyValue w p c v)"

definition await_fetchTokenMetadataForContract ::
  "world \<Rightarrow> string \<Rightarrow> ref \<Rightarrow> BigNumberish \<Rightarrow> ref \<Rightarrow> ('o, NFTMetadata) prog" where
  "await_fetchTokenMetadataForContract w a p t st =
     awaitP (Call_fetchTokenMetadataForContract a p t st)
       (fetchTokenMetadataForContract w a p t st)"

definition await_handleTokenApproval ::
  "world \<Rightarrow> ref \<Rightarrow> string \<Rightarrow> string \<Rightarrow> BigNumberish \<Rightarrow> string \<Rightarrow> ('o, unit) prog" where
  "await_handleTokenApproval w sp m a t owner =
     awaitP (Call_handleTokenApproval sp m a t owner) (handleTokenApproval w sp m a t owner)"

definition await_isTokenApprovedForMarketplace ::
  "world \<Rightarrow> ref \<Rightarrow> string \<Rightarrow> string \<Rightarrow> BigNumberish \<Rightarrow> string \<Rightarrow> ('o, bool) prog" where
  "await_isTokenApprovedForMarketplace w p m a t owner =
     awaitP (Call_isTokenApprovedForMarketplace p m a t owner)
       (isTokenApprovedForMarketplace w p m a t owner)"

definition await_mapOffer :: "world \<Rightarrow> ref \<Rightarrow> int \<Rightarrow> OfferStruct \<Rightarrow> ('o, Offer) prog" where
  "await_mapOffer w p i off = awaitP (Call_mapOffer p i off) (mapOffer w p i off)"

definition await_supportsInterface ::
  "world \<Rightarrow> ref \<Rightarrow> string \<Rightarrow> string \<Rightarrow> ('o, bool) prog" where
  "await_supportsInterface w p a iid =
     awaitP (Call_supportsInterface p a iid) (supportsInterface w p a iid)"

definition await_ownerOf :: "world \<Rightarrow> ref \<Rightarrow> string \<Rightarrow> BigNumberish \<Rightarrow> ('o, string) prog" where
  "await_ownerOf w p a t = awaitP (Call_ownerOf p a t) (ownerOf w p a t)"

definition await_balanceOf ::
  "world \<Rightarrow> ref \<Rightarrow> string \<Rightarrow> string \<Rightarrow> BigNumberish \<Rightarrow> ('o, int) prog" where
  "await_balanceOf w p a owner t = awaitP (Call_balanceOf p a owner t) (balanceOf w p a owner t)"

definition await_normalizeAmount :: "world \<Rightarrow> ref \<Rightarrow> Amount \<Rightarrow> ('o, int) prog" where
  "await_normalizeAmount w e a = awaitP (Call_normalizeAmount e a) (normalizeAmount w e a)"

section \<open>The wrapper classes\<close>

record MarketplaceDirect =
  contractWrapper :: ref
  storage :: ref

record ContractPrimarySale =
  featureName :: string
  contractWrapper :: ref

record Erc20BatchMintable =
  featureName :: string
  contractWrapper :: ref
  erc20 :: ref

subsection \<open>ContractPrimarySale\<close>

definition getRecipient :: "world \<Rightarrow> (ContractPrimarySale, string) prog" where
  "getRecipient w =
     bindP this (\<lambda>self.
     await_primarySaleRecipient w (ContractPrimarySale.contractWrapper self))"

definition setRecipient :: "world \<Rightarrow> string \<Rightarrow> (ContractPrimarySale, TransactionResult) prog" where
  "setRecipient w recipient =
     bindP this (\<lambda>self.
     bindP (await_sendTransaction w (ContractPrimarySale.contractWrapper self)
              ''setPrimarySaleRecipient'' [ArgString recipient] None) (\<lambda>r.
     returnP \<lparr>TransactionResult.receipt = r\<rparr>))"

subsection \<open>Erc20BatchMintable\<close>

text \<open>
  The \<open>for\<close> loop of \<open>to\<close>: \<open>encoded\<close> is the array built so far. The amount is
  normalised (awaited) first, then the call is encoded, then the result is pushed.
\<close>

fun to_loop ::
  "world \<Rightarrow> TokenMintInput list \<Rightarrow> string list \<Rightarrow> (Erc20BatchMintable, string list) prog" where
  "to_loop w [] encoded = returnP encoded"
| "to_loop w (arg # args) encoded =
     bindP this (\<lambda>self.
     bindP (await_normalizeAmount w (erc20 self) (amount arg)) (\<lambda>normalized.
     bindP (liftP (encodeFunctionData w (Erc20BatchMintable.contractWrapper self) ''mintTo''
              [ArgString (toAddress arg), ArgBigNumberish (BigNumberObj normalized)])) (\<lambda>data.
     to_loop w args (encoded @ [data]))))"

definition to :: "world \<Rightarrow> TokenMintInput list \<Rightarrow> (Erc20BatchMintable, TransactionResult) prog" where
  "to w args =
     bindP (to_loop w args []) (\<lambda>encoded.
     bindP this (\<lambda>self.
     bindP (await_multiCall w (Erc20BatchMintable.contractWrapper self) encoded) (\<lambda>r.
     returnP \<lparr>TransactionResult.receipt = r\<rparr>)))"

subsection \<open>MarketplaceDirect: read functions\<close>

definition getAddress :: "world \<Rightarrow> (MarketplaceDirect, string) prog" where
  "getAddress w =
     bindP this (\<lambda>self.
     returnP (readContract_address w (MarketplaceDirect.contractWrapper self)))"

text \<open>
  The object literal of \<open>mapListing\<close> is evaluated field by field: \<open>BigNumber.from\<close>
  of the price, then the awaited currency value, then the awaited token metadata.
\<close>

definition mapListing :: "world \<Rightarrow> ListingStruct \<Rightarrow> (MarketplaceDirect, DirectListing) prog" where
  "mapListing w listing =
     bindP this (\<lambda>self.
     bindP (liftP (BigNumber_from w (ListingStruct.buyoutPricePerToken listing))) (\<lambda>price.
     bindP (await_fetchCurrencyValue w (getProvider w (MarketplaceDirect.contractWrapper self))
              (ListingStruct.currency listing) (ListingStruct.buyoutPricePerToken listing))
       (\<lambda>currencyValue.
     bindP (await_fetchTokenMetadataForContract w (ListingStruct.assetContract listing)
              (getProvider w (MarketplaceDirect.contractWrapper self))
              (ListingStruct.tokenId listing) (storage self)) (\<lambda>metadata.
     returnP
       \<lparr>DirectListing.assetContractAddress = ListingStruct.assetContract listing,
        buyoutPrice = BigNumberObj price,
        currencyContractAddress = ListingStruct.currency listing,
        buyoutCurrencyValuePerToken = currencyValue,
        id' = toString w (ListingStruct.listingId listing),
        tokenId = ListingStruct.tokenId listing,
        quantity = ListingStruct.quantity listing,
        startTimeInSeconds = ListingStruct.startTime listing,
        asset = metadata,
        secondsUntilEnd = ListingStruct.endTime listing,
        sellerAddress = tokenOwner listing,
        type' = ListingType_Direct w\<rparr>))))"

definition getListing :: "world \<Rightarrow> BigNumberish \<Rightarrow> (MarketplaceDirect, DirectListing) prog" where
  "getListing w lid =
     bindP this (\<lambda>self.
     bindP (await_listings w (MarketplaceDirect.contractWrapper self) lid) (\<lambda>listing.
     if ListingStruct.assetContract listing = AddressZero then
       bindP (getAddress w) (\<lambda>address.
       throwP (ListingNotFoundError address (toString w lid)))
     else if ListingStruct.listingType listing \<noteq> ListingType_Direct w then
       bindP (getAddress w) (\<lambda>address.
       throwP (WrongListingTypeError address (toString w lid) ''Auction'' ''Direct''))
     else mapListing w listing))"

text \<open>The private \<open>validateListing\<close>: the error of \<open>getListing\<close> is logged and rethrown.\<close>

definition validateListing :: "world \<Rightarrow> int \<Rightarrow> (MarketplaceDirect, DirectListing) prog" where
  "validateListing w lid =
     catchP (getListing w (BigNumberObj lid)) (\<lambda>err.
       bindP (console_error (''Error getting the listing with id '' @
                toString w (BigNumberObj lid))) (\<lambda>_.
       throwP err))"

definition getActiveOffer ::
  "world \<Rightarrow> BigNumberish \<Rightarrow> string \<Rightarrow> (MarketplaceDirect, Offer option) prog" where
  "getActiveOffer w lid address =
     bindP this (\<lambda>self.
     bindP (liftP (BigNumber_from w lid)) (\<lambda>n.
     bindP (validateListing w n) (\<lambda>_.
     bindP (invariant (isAddress w address) ''Address must be a valid address'') (\<lambda>_.
     bindP (await_offers w (MarketplaceDirect.contractWrapper self) lid address) (\<lambda>offers.
     if OfferStruct.offeror offers = AddressZero then returnP None
     else
       bindP (liftP (BigNumber_from w lid)) (\<lambda>n'.
       bindP (await_mapOffer w (getProvider w (MarketplaceDirect.contractWrapper self)) n' offers)
         (\<lambda>offer.
       returnP (Some offer))))))))"

text \<open>
  \<open>isStillValidListing\<close>: the approval is checked first; both \<open>supportsInterface\<close>
  answers are awaited before either is tested; the ERC721 branch is tried first.
\<close>

definition isStillValidListing ::
  "world \<Rightarrow> DirectListing \<Rightarrow> BigNumberish option \<Rightarrow> (MarketplaceDirect, bool) prog" where
  "isStillValidListing w listing qty =
     bindP this (\<lambda>self.
     bindP (getAddress w) (\<lambda>address.
     bindP (await_isTokenApprovedForMarketplace w
              (getProvider w (MarketplaceDirect.contractWrapper self)) address
              (DirectListing.assetContractAddress listing) (DirectListing.tokenId listing)
              (sellerAddress listing)) (\<lambda>approved.
     if \<not> approved then returnP False
     else
       let provider = getProvider w (MarketplaceDirect.contractWrapper self) in
       bindP (await_supportsInterface w provider (DirectListing.assetContractAddress listing)
                (InterfaceId_IERC721 w)) (\<lambda>isERC721.
       bindP (await_supportsInterface w provider (DirectListing.assetContractAddress listing)
                (InterfaceId_IERC1155 w)) (\<lambda>isERC1155.
       if isERC721 then
         bindP (await_ownerOf w provider (DirectListing.assetContractAddress listing)
                  (DirectListing.tokenId listing)) (\<lambda>owner.
         returnP (toLowerCase owner = toLowerCase (sellerAddress listing)))
       else if isERC1155 then
         bindP (await_balanceOf w provider (DirectListing.assetContractAddress listing)
                  (sellerAddress listing) (DirectListing.tokenId listing)) (\<lambda>balance.
         bindP (liftP (BigNumber_from w (or_else qty (DirectListing.quantity listing))))
           (\<lambda>wanted.
         returnP (balance \<ge> wanted)))
       else
         bindP (console_error ''Contract does not implement ERC 1155 or ERC 721.'') (\<lambda>_.
         returnP False))))))"

subsection \<open>MarketplaceDirect: write functions\<close>

text \<open>\<open>(await getCallOverrides()) || {}\<close>: an object is truthy, \<open>undefined\<close> is not.\<close>

definition or_empty :: "overrides option \<Rightarrow> overrides" where
  "or_empty ov = (case ov of None \<Rightarrow> [] | Some x \<Rightarrow> x)"

text \<open>
  \<open>Math.floor(date.getTime() / 1000)\<close>: on the integral milliseconds of a valid date
  the floored quotient.
\<close>

definition seconds_of :: "Date \<Rightarrow> int" where
  "seconds_of d = d div 1000"

definition createListing ::
  "world \<Rightarrow> NewDirectListing \<Rightarrow> (MarketplaceDirect, TransactionResultWithId) prog" where
  "createListing w listing =
     bindP this (\<lambda>self.
     let cw = MarketplaceDirect.contractWrapper self in
     bindP (liftP (validateNewListingParam w listing)) (\<lambda>_.
     bindP (getAddress w) (\<lambda>address.
     bindP (await_getSignerAddress w cw) (\<lambda>signer.
     bindP (await_handleTokenApproval w (getSignerOrProvider w cw) address
              (NewDirectListing.assetContractAddress listing) (NewDirectListing.tokenId listing)
              signer) (\<lambda>_.
     bindP (await_normalizePriceValue w (getProvider w cw)
              (NewDirectListing.buyoutPricePerToken listing)
              (NewDirectListing.currencyContractAddress listing)) (\<lambda>normalizedPricePerToken.
     bindP (await_getBlock w (getProvider w cw)) (\<lambda>blockTime.
     let listingStartTime =
           (if seconds_of (startTimestamp listing) < blockTime then blockTime
            else seconds_of (startTimestamp listing)) in
     bindP (liftP (BigNumber_from w (JSNumber listingStartTime))) (\<lambda>start.
     bindP (await_sendTransaction w cw ''createListing''
              [ArgStruct
                 \<lparr>ListingParametersStruct.assetContract =
                    NewDirectListing.assetContractAddress listing,
                  tokenId = NewDirectListing.tokenId listing,
                  buyoutPricePerToken = BigNumberObj normalizedPricePerToken,
                  currencyToAccept = NewDirectListing.currencyContractAddress listing,
                  listingType = ListingType_Direct w,
                  quantityToList = NewDirectListing.quantity listing,
                  reservePricePerToken = BigNumberObj normalizedPricePerToken,
                  secondsUntilEndTime = listingDurationInSeconds listing,
                  startTime = BigNumberObj start\<rparr>]
              (Some [(''gasLimit'', 500000)])) (\<lambda>r.
     bindP (liftP (parseLogs w cw ''ListingAdded'' r)) (\<lambda>events.
     case events of
       [] \<Rightarrow> throwP (TypeError ''Cannot read properties of undefined'')
     | e # _ \<Rightarrow> returnP \<lparr>TransactionResultWithId.id' = e, receipt = r\<rparr>))))))))))"

definition makeOffer ::
  "world \<Rightarrow> BigNumberish \<Rightarrow> BigNumberish \<Rightarrow> string \<Rightarrow> Price \<Rightarrow> Date option \<Rightarrow>
     (MarketplaceDirect, TransactionResult) prog" where
  "makeOffer w lid quantityDesired currencyAddress price expirationDate =
     (if isNativeToken w currencyAddress then
        throwP (Error (''You must use the wrapped native token address '' @
                       ''when making an offer with a native token''))
      else
        bindP this (\<lambda>self.
        let cw = MarketplaceDirect.contractWrapper self in
        bindP (await_normalizePriceValue w (getProvider w cw) price currencyAddress)
          (\<lambda>normalizedPrice.
        bindP (catchP (getListing w lid) (\<lambda>err.
                 bindP (console_error ''Failed to get listing, err ='') (\<lambda>_.
                 throwP (Error (''Error getting the listing with id '' @ toString w lid)))))
          (\<lambda>_.
        bindP (liftP (BigNumber_from w quantityDesired)) (\<lambda>qty.
        bindP (liftP (BigNumber_from w (BigNumberObj normalizedPrice))) (\<lambda>p.
        let val = p * qty in
        bindP (await_getCallOverrides w cw) (\<lambda>ov.
        bindP (await_setErc20Allowance w cw val currencyAddress (or_empty ov)) (\<lambda>overrides.
        bindP (case expirationDate of
                 None \<Rightarrow> returnP MaxUint256
               | Some d \<Rightarrow> liftP (BigNumber_from w (JSNumber (seconds_of d))))
          (\<lambda>expiration.
        bindP (await_sendTransaction w cw ''offer''
                 [ArgBigNumberish lid, ArgBigNumberish quantityDesired, ArgString currencyAddress,
                  ArgBigNumberish (BigNumberObj normalizedPrice),
                  ArgBigNumberish (BigNumberObj expiration)]
                 (Some overrides)) (\<lambda>r.
        returnP \<lparr>TransactionResult.receipt = r\<rparr>))))))))))"

definition acceptOffer ::
  "world \<Rightarrow> BigNumberish \<Rightarrow> string \<Rightarrow> (MarketplaceDirect, TransactionResult) prog" where
  "acceptOffer w lid addressOfOfferor =
     bindP this (\<lambda>self.
     bindP (liftP (BigNumber_from w lid)) (\<lambda>n.
     bindP (validateListing w n) (\<lambda>_.
     bindP (await_offers w (MarketplaceDirect.contractWrapper self) lid addressOfOfferor)
       (\<lambda>offer.
     bindP (await_sendTransaction w (MarketplaceDirect.contractWrapper self) ''acceptOffer''
              [ArgBigNumberish lid, ArgString addressOfOfferor,
               ArgString (OfferStruct.currency offer),
               ArgBigNumberish (pricePerToken offer)] None) (\<lambda>r.
     returnP \<lparr>TransactionResult.receipt = r\<rparr>)))))"

text \<open>
  \<open>buyoutListing\<close>. \<open>receiver ? receiver : await getSignerAddress()\<close>: an absent or
  empty receiver is falsy.
\<close>

definition buyoutListing ::
  "world \<Rightarrow> BigNumberish \<Rightarrow> BigNumberish \<Rightarrow> string option \<Rightarrow>
     (MarketplaceDirect, TransactionResult) prog" where
  "buyoutListing w lid quantityDesired receiver =
     bindP this (\<lambda>self.
     let cw = MarketplaceDirect.contractWrapper self in
     bindP (liftP (BigNumber_from w lid)) (\<lambda>n.
     bindP (validateListing w n) (\<lambda>listing.
     bindP (isStillValidListing w listing (Some quantityDesired)) (\<lambda>valid.
     if \<not> valid then
       throwP (Error (''The asset on this listing has been moved from the lister's wallet, '' @
                      ''this listing is now invalid''))
     else
       bindP (case receiver of
                None \<Rightarrow> await_getSignerAddress w cw
              | Some a \<Rightarrow> if a \<noteq> [] then returnP a else await_getSignerAddress w cw)
         (\<lambda>buyFor.
       bindP (liftP (BigNumber_from w quantityDesired)) (\<lambda>qty.
       bindP (liftP (BigNumber_from w (buyoutPrice listing))) (\<lambda>p.
       let val = p * qty in
       bindP (await_getCallOverrides w cw) (\<lambda>ov.
       bindP (await_setErc20Allowance w cw val (DirectListing.currencyContractAddress listing)
                (or_empty ov)) (\<lambda>overrides.
       bindP (await_sendTransaction w cw ''buy''
                [ArgBigNumberish lid, ArgString buyFor, ArgBigNumberish (BigNumberObj qty),
                 ArgString (DirectListing.currencyContractAddress listing),
                 ArgBigNumberish (BigNumberObj val)]
                (Some overrides)) (\<lambda>r.
       returnP \<lparr>TransactionResult.receipt = r\<rparr>))))))))))"

definition updateListing ::
  "world \<Rightarrow> DirectListing \<Rightarrow> (MarketplaceDirect, TransactionResult) prog" where
  "updateListing w listing =
     bindP this (\<lambda>self.
     bindP (await_sendTransaction w (MarketplaceDirect.contractWrapper self) ''updateListing''
              [ArgString (DirectListing.id' listing),
               ArgBigNumberish (DirectListing.quantity listing),
               ArgBigNumberish (buyoutPrice listing),
               ArgBigNumberish (buyoutPrice listing),
               ArgString (DirectListing.currencyContractAddress listing),
               ArgBigNumberish (startTimeInSeconds listing),
               ArgBigNumberish (secondsUntilEnd listing)] None) (\<lambda>r.
     returnP \<lparr>TransactionResult.receipt = r\<rparr>))"

definition cancelListing ::
  "world \<Rightarrow> BigNumberish \<Rightarrow> (MarketplaceDirect, TransactionResult) prog" where
  "cancelListing w lid =
     bindP this (\<lambda>self.
     bindP (await_sendTransaction w (MarketplaceDirect.contractWrapper self)
              ''cancelDirectListing'' [ArgBigNumberish lid] None) (\<lambda>r.
     returnP \<lparr>TransactionResult.receipt = r\<rparr>))"

section \<open>Observing a method call\<close>

text \<open>
  A call on the object \<open>self\<close> starts with an empty log. \<open>result_of\<close> is what the
  promise settles to, \<open>log_of\<close> what the call did to the outside, in order.
\<close>

definition result_of :: "('o, 'a) prog \<Rightarrow> 'o \<Rightarrow> error + 'a" where
  "result_of m self = fst (m (self, []))"

definition log_of :: "('o, 'a) prog \<Rightarrow> 'o \<Rightarrow> event list" where
  "log_of m self = snd (snd (m (self, [])))"

text \<open>
  A program is framed when it leaves \<open>this\<close> as it found it, only appends to the log,
  and neither its result nor what it appends depends on the log it started with. The
  methods hand the values of their fields to the outside, never \<open>this\<close> itself, so
  an awaited call has no access to the object.
\<close>

definition frame :: "('o, 'a) prog \<Rightarrow> bool" where
  "frame m = (\<forall>self t. m (self, t) = (result_of m self, self, t @ log_of m self))"

text \<open>The transactions named \<open>fn\<close> in a log: receiver, arguments and overrides of each.\<close>

fun sent :: "string \<Rightarrow> event list \<Rightarrow> (ref \<times> tx_arg list \<times> overrides option) list" where
  "sent fn [] = []"
| "sent fn (Call_sendTransaction c f args ov # es) =
     (if f = fn then (c, args, ov) # sent fn es else sent fn es)"
| "sent fn (e # es) = sent fn es"

text \<open>The reads of \<open>offers\<close> in a log.\<close>

fun offers_read :: "event list \<Rightarrow> (ref \<times> BigNumberish \<times> string) list" where
  "offers_read [] = []"
| "offers_read (Call_offers c i a # es) = (c, i, a) # offers_read es"
| "offers_read (e # es) = offers_read es"


section \<open>An example world\<close>

text \<open>
  A marketplace at \<open>example_address\<close> holding one direct listing of an ERC721 token,
  with every outside call succeeding. The examples below vary it field by field.
\<close>

definition example_address :: string where
  "example_address = ''0x00000000000000000000000000000000000000A1''"

definition example_asset :: string where
  "example_asset = ''0x00000000000000000000000000000000000000B2''"

definition example_seller :: string where
  "example_seller = ''0x00000000000000000000000000000000000000c3''"

definition example_buyer :: string where
  "example_buyer = ''0x00000000000000000000000000000000000000d4''"

definition example_currency :: string where
  "example_currency = ''0x00000000000000000000000000000000000000e5''"

definition example_native :: string where
  "example_native = ''0xeeeeeeeeeeeeeeeeeeeeeeeeeeeeeeeeeeeeeeee''"

definition example_listing :: ListingStruct where
  "example_listing =
     \<lparr>ListingStruct.listingId = BigNumberObj 7,
      tokenOwner = example_seller,
      assetContract = example_asset,
      tokenId = BigNumberObj 1,
      startTime = BigNumberObj 1700000000,
      endTime = BigNumberObj 1700086400,
      quantity = BigNumberObj 2,
      currency = example_currency,
      reservePricePerToken = BigNumberObj 50,
      buyoutPricePerToken = BigNumberObj 50,
      tokenType = 1,
      listingType = 0\<rparr>"

definition example_offer :: OfferStruct where
  "example_offer =
     \<lparr>OfferStruct.listingId = BigNumberObj 0,
      offeror = AddressZero,
      quantityWanted = BigNumberObj 0,
      currency = AddressZero,
      pricePerToken = BigNumberObj 0,
      expirationTimestamp = BigNumberObj 0\<rparr>"

definition example_world :: world where
  "example_world =
     \<lparr>readContract_address = (\<lambda>cw. example_address),
      readContract_listings = (\<lambda>cw i. Inr example_listing),
      readContract_offers = (\<lambda>cw i a. Inr example_offer),
      readContract_primarySaleRecipient = (\<lambda>cw. Inr example_seller),
      encodeFunctionData =
        (\<lambda>cw fn args. case args of [ArgString a, ArgBigNumberish (BigNumberObj n)] \<Rightarrow>
             Inr (if n = 1 then ''mintTo:1:'' @ a else ''mintTo:'' @ a)
           | _ \<Rightarrow> Inl (Rejected ''types'')),
      sendTransaction = (\<lambda>cw fn args ov. Inr 100),
      multiCall = (\<lambda>cw encoded. Inr 101),
      getProvider = (\<lambda>cw. 10),
      getSignerOrProvider = (\<lambda>cw. 11),
      getSignerAddress = (\<lambda>cw. Inr example_buyer),
      getCallOverrides = (\<lambda>cw. Inr None),
      parseLogs = (\<lambda>cw name r. Inr [8]),
      getBlock_latest_timestamp = (\<lambda>p. Inr 1700000000),
      isNativeToken = (\<lambda>a. a = example_native),
      normalizePriceValue = (\<lambda>p price c. Inr 1500),
      setErc20Allowance = (\<lambda>cw v c ov. Inr ov),
      fetchCurrencyValue = (\<lambda>p c v. Inr 20),
      fetchTokenMetadataForContract = (\<lambda>a p t st. Inr 21),
      handleTokenApproval = (\<lambda>sp m a t owner. Inr ()),
      isTokenApprovedForMarketplace = (\<lambda>p m a t owner. Inr True),
      mapOffer = (\<lambda>p i off. Inr 22),
      validateNewListingParam = (\<lambda>l. Inr ()),
      supportsInterface = (\<lambda>p a iid. Inr (iid = ''0x80ac58cd'')),
      ownerOf = (\<lambda>p a t. Inr ''0x00000000000000000000000000000000000000C3''),
      balanceOf = (\<lambda>p a owner t. Inr 0),
      normalizeAmount = (\<lambda>e a. if a = ''1'' then Inr 1 else Inr 2),
      isAddress = (\<lambda>a. length a = 42),
      BigNumber_from_other = (\<lambda>v. Inl (NumericFault ''invalid BigNumber value'')),
      toString = (\<lambda>v. ''7''),
      InterfaceId_IERC721 = ''0x80ac58cd'',
      InterfaceId_IERC1155 = ''0xd9b67a26'',
      ListingType_Direct = 0\<rparr>"

definition example_market :: MarketplaceDirect where
  "example_market = \<lparr>MarketplaceDirect.contractWrapper = 1, storage = 2\<rparr>"


definition example_new_listing :: NewDirectListing where
  "example_new_listing =
     \<lparr>NewDirectListing.assetContractAddress = example_asset,
      tokenId = JSString ''0'',
      startTimestamp = 1600000000999,
      listingDurationInSeconds = JSNumber 86400,
      quantity = JSNumber 1,
      currencyContractAddress = example_native,
      buyoutPricePerToken = ''1.5''\<rparr>"

text \<open>The example listing as \<open>mapListing\<close> returns it.\<close>

definition example_direct_listing :: DirectListing where
  "example_direct_listing =
     \<lparr>DirectListing.assetContractAddress = example_asset,
      buyoutPrice = BigNumberObj 50,
      currencyContractAddress = example_currency,
      buyoutCurrencyValuePerToken = 20,
      id' = ''7'',
      tokenId = BigNumberObj 1,
      quantity = BigNumberObj 2,
      startTimeInSeconds = BigNumberObj 1700000000,
      asset = 21,
      secondsUntilEnd = BigNumberObj 1700086400,
      sellerAddress = example_seller,
      type' = 0\<rparr>"

text \<open>
  Variants of the asset contract: one that reports both interfaces while the token has
  moved to another owner, an ERC1155 contract where the seller holds one token, and a
  contract that reports neither interface.
\<close>

definition both_interfaces_world :: world where
  "both_interfaces_world =
     example_world\<lparr>supportsInterface := \<lambda>p a iid. Inr True,
                    ownerOf := \<lambda>p a t. Inr example_buyer,
                    balanceOf := \<lambda>p a owner t. Inr 5\<rparr>"

definition erc1155_world :: world where
  "erc1155_world =
     example_world\<lparr>supportsInterface := \<lambda>p a iid. Inr (iid = ''0xd9b67a26''),
                    balanceOf := \<lambda>p a owner t. Inr 1\<rparr>"

definition no_interface_world :: world where
  "no_interface_world = example_world\<lparr>supportsInterface := \<lambda>p a iid. Inr False\<rparr>"

text \<open>A listing id that was never used: the contract returns the all-zero struct.\<close>

definition empty_listing :: ListingStruct where
  "empty_listing =
     \<lparr>ListingStruct.listingId = BigNumberObj 0,
      tokenOwner = AddressZero,
      assetContract = AddressZero,
      tokenId = BigNumberObj 0,
      startTime = BigNumberObj 0,
      endTime = BigNumberObj 0,
      quantity = BigNumberObj 0,
      currency = AddressZero,
      reservePricePerToken = BigNumberObj 0,
      buyoutPricePerToken = BigNumberObj 0,
      tokenType = 0,
      listingType = 0\<rparr>"

definition empty_listing_world :: world where
  "empty_listing_world = example_world\<lparr>readContract_listings := \<lambda>cw i. Inr empty_listing\<rparr>"

text \<open>A listing that exists on the marketplace as an auction.\<close>

definition auction_listing :: ListingStruct where
  "auction_listing = example_listing\<lparr>ListingStruct.listingType := 1\<rparr>"

definition auction_world :: world where
  "auction_world = example_world\<lparr>readContract_listings := \<lambda>cw i. Inr auction_listing\<rparr>"

text \<open>The same new listing with a start date after the latest block.\<close>

definition example_future_listing :: NewDirectListing where
  "example_future_listing = example_new_listing\<lparr>startTimestamp := 1800000000999\<rparr>"


section \<open>Reasoning about framed programs\<close>

lemma frameD: "frame m \<Longrightarrow> m (self, t) = (result_of m self, self, t @ log_of m self)"
  by (simp add: frame_def)

lemma frame_returnP [simp]: "frame (returnP x)"
  by (simp add: frame_def result_of_def log_of_def returnP_def)

lemma frame_throwP [simp]: "frame (throwP e)"
  by (simp add: frame_def result_of_def log_of_def throwP_def)

lemma frame_this [simp]: "frame this"
  by (simp add: frame_def result_of_def log_of_def this_def)

lemma frame_liftP [simp]: "frame (liftP r)"
  by (simp add: frame_def result_of_def log_of_def liftP_def)

lemma frame_awaitP [simp]: "frame (awaitP ev r)"
  by (simp add: frame_def result_of_def log_of_def awaitP_def)

lemma frame_console_error [simp]: "frame (console_error msg)"
  by (simp add: frame_def result_of_def log_of_def console_error_def)

lemma frame_invariant [simp]: "frame (invariant c msg)"
  by (simp add: invariant_def)

lemma result_simps [simp]:
  "result_of (returnP x) self = Inr x"
  "result_of (throwP e) self = Inl e"
  "result_of this self = Inr self"
  "result_of (liftP r) self = r"
  "result_of (awaitP ev r) self = r"
  "result_of (console_error msg) self = Inr ()"
  by (simp_all add: result_of_def returnP_def throwP_def this_def liftP_def
      awaitP_def console_error_def)

lemma log_simps [simp]:
  "log_of (returnP x) self = []"
  "log_of (throwP e) self = []"
  "log_of this self = []"
  "log_of (liftP r) self = []"
  "log_of (awaitP ev r) self = [ev]"
  "log_of (console_error msg) self = [Console_error msg]"
  by (simp_all add: log_of_def returnP_def throwP_def this_def liftP_def
      awaitP_def console_error_def)

lemma bindP_run:
  assumes "frame m" and "\<And>x. frame (f x)"
  shows "bindP m f (self, t) =
    (case result_of m self of
       Inl e \<Rightarrow> (Inl e, self, t @ log_of m self)
     | Inr x \<Rightarrow> (result_of (f x) self, self, t @ log_of m self @ log_of (f x) self))"
  by (simp add: bindP_def frameD [OF assms(1)] frameD [OF assms(2)] split: sum.splits)

lemma frame_bindP [simp]:
  assumes "frame m" and "\<And>x. frame (f x)"
  shows "frame (bindP m f)"
  unfolding frame_def result_of_def log_of_def
  by (simp add: bindP_run [OF assms] split: sum.splits)

lemma result_bindP [simp]:
  assumes "frame m" and "\<And>x. frame (f x)"
  shows "result_of (bindP m f) self =
    (case result_of m self of Inl e \<Rightarrow> Inl e | Inr x \<Rightarrow> result_of (f x) self)"
  unfolding result_of_def [of "bindP m f"]
  by (simp add: bindP_run [OF assms] split: sum.splits)

lemma log_bindP [simp]:
  assumes "frame m" and "\<And>x. frame (f x)"
  shows "log_of (bindP m f) self =
    log_of m self @ (case result_of m self of Inl e \<Rightarrow> [] | Inr x \<Rightarrow> log_of (f x) self)"
  unfolding log_of_def [of "bindP m f"]
  by (simp add: bindP_run [OF assms] split: sum.splits)

lemma catchP_run:
  assumes "frame m" and "\<And>e. frame (h e)"
  shows "catchP m h (self, t) =
    (case result_of m self of
       Inl e \<Rightarrow> (result_of (h e) self, self, t @ log_of m self @ log_of (h e) self)
     | Inr x \<Rightarrow> (Inr x, self, t @ log_of m self))"
  by (simp add: catchP_def frameD [OF assms(1)] frameD [OF assms(2)] split: sum.splits)

lemma frame_catchP [simp]:
  assumes "frame m" and "\<And>e. frame (h e)"
  shows "frame (catchP m h)"
  unfolding frame_def result_of_def log_of_def
  by (simp add: catchP_run [OF assms] split: sum.splits)

lemma result_catchP [simp]:
  assumes "frame m" and "\<And>e. frame (h e)"
  shows "result_of (catchP m h) self =
    (case result_of m self of Inl e \<Rightarrow> result_of (h e) self | Inr x \<Rightarrow> Inr x)"
  unfolding result_of_def [of "catchP m h"]
  by (simp add: catchP_run [OF assms] split: sum.splits)

lemma log_catchP [simp]:
  assumes "frame m" and "\<And>e. frame (h e)"
  shows "log_of (catchP m h) self =
    log_of m self @ (case result_of m self of Inl e \<Rightarrow> log_of (h e) self | Inr x \<Rightarrow> [])"
  unfolding log_of_def [of "catchP m h"]
  by (simp add: catchP_run [OF assms] split: sum.splits)

lemma frame_if [simp]: "(c \<Longrightarrow> frame a) \<Longrightarrow> (\<not> c \<Longrightarrow> frame b) \<Longrightarrow> frame (if c then a else b)"
  by simp

lemma frame_case_option [simp]:
  "frame a \<Longrightarrow> (\<And>x. frame (b x)) \<Longrightarrow> frame (case v of None \<Rightarrow> a | Some x \<Rightarrow> b x)"
  by (cases v) simp_all

lemma frame_case_list [simp]:
  "frame a \<Longrightarrow> (\<And>x xs. frame (b x xs)) \<Longrightarrow> frame (case v of [] \<Rightarrow> a | x # xs \<Rightarrow> b x xs)"
  by (cases v) simp_all

lemmas await_defs =
  await_listings_def await_offers_def await_primarySaleRecipient_def
  await_sendTransaction_def await_multiCall_def await_getSignerAddress_def
  await_getCallOverrides_def await_getBlock_def await_normalizePriceValue_def
  await_setErc20Allowance_def await_fetchCurrencyValue_def
  await_fetchTokenMetadataForContract_def await_handleTokenApproval_def
  await_isTokenApprovedForMarketplace_def await_mapOffer_def await_supportsInterface_def
  await_ownerOf_def await_balanceOf_def await_normalizeAmount_def

subsection \<open>Every method is framed\<close>

lemma frame_getAddress [simp]: "frame (getAddress w)"
  by (simp add: getAddress_def)

lemma frame_mapListing [simp]: "frame (mapListing w l)"
  by (simp add: mapListing_def await_defs)

lemma frame_getListing [simp]: "frame (getListing w lid)"
  by (simp add: getListing_def await_defs)

lemma frame_validateListing [simp]: "frame (validateListing w n)"
  by (simp add: validateListing_def)

lemma frame_getActiveOffer [simp]: "frame (getActiveOffer w lid a)"
  by (simp add: getActiveOffer_def await_defs)

lemma frame_isStillValidListing [simp]: "frame (isStillValidListing w l q)"
  by (simp add: isStillValidListing_def await_defs Let_def)

lemma frame_createListing [simp]: "frame (createListing w l)"
  by (simp add: createListing_def await_defs Let_def)

lemma frame_makeOffer [simp]: "frame (makeOffer w lid q c p e)"
  by (simp add: makeOffer_def await_defs Let_def)

lemma frame_acceptOffer [simp]: "frame (acceptOffer w lid a)"
  by (simp add: acceptOffer_def await_defs)

lemma frame_buyoutListing [simp]: "frame (buyoutListing w lid q r)"
  by (simp add: buyoutListing_def await_defs Let_def)

lemma frame_updateListing [simp]: "frame (updateListing w l)"
  by (simp add: updateListing_def await_defs)

lemma frame_cancelListing [simp]: "frame (cancelListing w lid)"
  by (simp add: cancelListing_def await_defs)

lemma frame_getRecipient [simp]: "frame (getRecipient w)"
  by (simp add: getRecipient_def await_defs)

lemma frame_setRecipient [simp]: "frame (setRecipient w r)"
  by (simp add: setRecipient_def await_defs)

lemma frame_to_loop [simp]: "frame (to_loop w args encoded)"
  by (induction args arbitrary: encoded) (simp_all add: await_defs)

lemma frame_to [simp]: "frame (to w args)"
  by (simp add: to_def await_defs)

lemma frame_preserves: "frame m \<Longrightarrow> fst (snd (m (self, t))) = self"
  by (simp add: frameD)

lemma sent_append: "sent fn (xs @ ys) = sent fn xs @ sent fn ys"
  by (induction fn xs rule: sent.induct) simp_all

lemma offers_read_append: "offers_read (xs @ ys) = offers_read xs @ offers_read ys"
  by (induction xs rule: offers_read.induct) simp_all

lemmas example_defs =
  example_world_def example_market_def example_listing_def example_offer_def
  example_address_def example_asset_def example_seller_def example_buyer_def
  example_currency_def example_native_def AddressZero_def

section \<open>The wrapper objects keep no state\<close>

text \<open>
  Claim C8. No public method of \<open>MarketplaceDirect\<close>, \<open>ContractPrimarySale\<close> or
  \<open>Erc20BatchMintable\<close> changes a field of the object it is called on: whatever the
  outside world answers, whatever was logged before, and whether the call returns or
  throws, the object after the call is the object before it (so \<open>contractWrapper\<close>,
  \<open>storage\<close>, \<open>erc20\<close> and \<open>featureName\<close> hold the references they held).
\<close>

theorem methods_leave_fields_unchanged:
  "fst (snd (getAddress w (market, t))) = market \<and>
   fst (snd (getListing w lid (market, t))) = market \<and>
   fst (snd (getActiveOffer w lid address (market, t))) = market \<and>
   fst (snd (createListing w new (market, t))) = market \<and>
   fst (snd (makeOffer w lid qty cur price expiry (market, t))) = market \<and>
   fst (snd (acceptOffer w lid address (market, t))) = market \<and>
   fst (snd (buyoutListing w lid qty receiver (market, t))) = market \<and>
   fst (snd (updateListing w listing (market, t))) = market \<and>
   fst (snd (cancelListing w lid (market, t))) = market \<and>
   fst (snd (mapListing w raw (market, t))) = market \<and>
   fst (snd (isStillValidListing w listing optqty (market, t))) = market \<and>
   fst (snd (getRecipient w (sale, t))) = sale \<and>
   fst (snd (setRecipient w address (sale, t))) = sale \<and>
   fst (snd (to w args (mintable, t))) = mintable"
  by (simp add: frame_preserves)

section \<open>getListing\<close>

lemma getListing_result:
  assumes "readContract_listings w (MarketplaceDirect.contractWrapper self) lid = Inr l"
  shows "result_of (getListing w lid) self =
    (if ListingStruct.assetContract l = AddressZero then
       Inl (ListingNotFoundError
              (readContract_address w (MarketplaceDirect.contractWrapper self)) (toString w lid))
     else if ListingStruct.listingType l \<noteq> ListingType_Direct w then
       Inl (WrongListingTypeError
              (readContract_address w (MarketplaceDirect.contractWrapper self)) (toString w lid)
              ''Auction'' ''Direct'')
     else result_of (mapListing w l) self)"
  using assms by (simp add: getListing_def getAddress_def await_defs)

lemma mapListing_success:
  assumes "BigNumber_from w (ListingStruct.buyoutPricePerToken l) = Inr price"
    and "fetchCurrencyValue w (getProvider w (MarketplaceDirect.contractWrapper self))
           (ListingStruct.currency l) (ListingStruct.buyoutPricePerToken l) = Inr currencyValue"
    and "fetchTokenMetadataForContract w (ListingStruct.assetContract l)
           (getProvider w (MarketplaceDirect.contractWrapper self)) (ListingStruct.tokenId l)
           (storage self) = Inr metadata"
  shows "result_of (mapListing w l) self =
     Inr \<lparr>DirectListing.assetContractAddress = ListingStruct.assetContract l,
        buyoutPrice = BigNumberObj price,
        currencyContractAddress = ListingStruct.currency l,
        buyoutCurrencyValuePerToken = currencyValue,
        id' = toString w (ListingStruct.listingId l),
        tokenId = ListingStruct.tokenId l,
        quantity = ListingStruct.quantity l,
        startTimeInSeconds = ListingStruct.startTime l,
        asset = metadata,
        secondsUntilEnd = ListingStruct.endTime l,
        sellerAddress = tokenOwner l,
        type' = ListingType_Direct w\<rparr>"
  using assms by (simp add: mapListing_def await_defs)

text \<open>
  Claim C6. Let \<open>l\<close> be the listing the contract returns. The two guards are read in
  the order the claim lists them, which is the order of the code. If \<open>l\<close>'s asset
  contract is the zero address, \<open>getListing\<close> throws \<open>ListingNotFoundError\<close>. If it
  is not, and \<open>l\<close>'s listing type is not \<open>Direct\<close>, \<open>getListing\<close> throws
  \<open>WrongListingTypeError\<close>. Otherwise, when the price converts and the currency value
  and the token metadata are fetched, it returns the \<open>DirectListing\<close> whose fields
  are those of \<open>l\<close>, with the fetched currency value and metadata and the type
  \<open>Direct\<close>. In either error case no listing is returned.
\<close>

theorem getListing_outcome:
  assumes "readContract_listings w (MarketplaceDirect.contractWrapper self) lid = Inr l"
  shows
    "(ListingStruct.assetContract l = AddressZero
      \<longrightarrow> result_of (getListing w lid) self =
            Inl (ListingNotFoundError
                   (readContract_address w (MarketplaceDirect.contractWrapper self))
                   (toString w lid))) \<and>
     (ListingStruct.assetContract l \<noteq> AddressZero \<and>
      ListingStruct.listingType l \<noteq> ListingType_Direct w
      \<longrightarrow> result_of (getListing w lid) self =
            Inl (WrongListingTypeError
                   (readContract_address w (MarketplaceDirect.contractWrapper self))
                   (toString w lid) ''Auction'' ''Direct'')) \<and>
     (ListingStruct.assetContract l \<noteq> AddressZero \<and>
      ListingStruct.listingType l = ListingType_Direct w \<and>
      BigNumber_from w (ListingStruct.buyoutPricePerToken l) = Inr price \<and>
      fetchCurrencyValue w (getProvider w (MarketplaceDirect.contractWrapper self))
        (ListingStruct.currency l) (ListingStruct.buyoutPricePerToken l) = Inr currencyValue \<and>
      fetchTokenMetadataForContract w (ListingStruct.assetContract l)
        (getProvider w (MarketplaceDirect.contractWrapper self)) (ListingStruct.tokenId l)
        (storage self) = Inr metadata
      \<longrightarrow> result_of (getListing w lid) self =
            Inr \<lparr>DirectListing.assetContractAddress = ListingStruct.assetContract l,
               buyoutPrice = BigNumberObj price,
               currencyContractAddress = ListingStruct.currency l,
               buyoutCurrencyValuePerToken = currencyValue,
               id' = toString w (ListingStruct.listingId l),
               tokenId = ListingStruct.tokenId l,
               quantity = ListingStruct.quantity l,
               startTimeInSeconds = ListingStruct.startTime l,
               asset = metadata,
               secondsUntilEnd = ListingStruct.endTime l,
               sellerAddress = tokenOwner l,
               type' = ListingType_Direct w\<rparr>) \<and>
     (ListingStruct.assetContract l = AddressZero \<or>
      ListingStruct.listingType l \<noteq> ListingType_Direct w
      \<longrightarrow> (\<forall>d. result_of (getListing w lid) self \<noteq> Inr d))"
  by (auto simp: getListing_result [OF assms] mapListing_success)

text \<open>
  The three outcomes: a listing id never used, an auction listing, and the example
  direct listing.
\<close>

theorem getListing_outcome_witness:
  "result_of (getListing empty_listing_world (JSNumber 7)) example_market =
     Inl (ListingNotFoundError example_address ''7'') \<and>
   result_of (getListing auction_world (JSNumber 7)) example_market =
     Inl (WrongListingTypeError example_address ''7'' ''Auction'' ''Direct'') \<and>
   result_of (getListing example_world (JSNumber 7)) example_market = Inr example_direct_listing"
  using getListing_outcome [of empty_listing_world example_market "JSNumber 7" empty_listing]
    getListing_outcome [of auction_world example_market "JSNumber 7" auction_listing]
    getListing_outcome [of example_world example_market "JSNumber 7" example_listing 50 20 21]
  by (simp add: empty_listing_world_def empty_listing_def auction_world_def auction_listing_def
      example_defs example_direct_listing_def BigNumber_from_def)

section \<open>isStillValidListing\<close>

lemma isStillValidListing_result:
  "result_of (isStillValidListing w l q) self =
    (let p = getProvider w (MarketplaceDirect.contractWrapper self);
         a = DirectListing.assetContractAddress l;
         tid = DirectListing.tokenId l;
         seller = sellerAddress l in
     case isTokenApprovedForMarketplace w p
            (readContract_address w (MarketplaceDirect.contractWrapper self)) a tid seller of
       Inl e \<Rightarrow> Inl e
     | Inr approved \<Rightarrow>
         if \<not> approved then Inr False
         else (case supportsInterface w p a (InterfaceId_IERC721 w) of
           Inl e \<Rightarrow> Inl e
         | Inr isERC721 \<Rightarrow>
             (case supportsInterface w p a (InterfaceId_IERC1155 w) of
                Inl e \<Rightarrow> Inl e
              | Inr isERC1155 \<Rightarrow>
                  if isERC721 then
                    (case ownerOf w p a tid of
                       Inl e \<Rightarrow> Inl e
                     | Inr owner \<Rightarrow> Inr (toLowerCase owner = toLowerCase seller))
                  else if isERC1155 then
                    (case balanceOf w p a seller tid of
                       Inl e \<Rightarrow> Inl e
                     | Inr balance \<Rightarrow>
                         (case BigNumber_from w (or_else q (DirectListing.quantity l)) of
                            Inl e \<Rightarrow> Inl e
                          | Inr wanted \<Rightarrow> Inr (wanted \<le> balance)))
                  else Inr False)))"
  by (simp add: isStillValidListing_def getAddress_def await_defs Let_def split: sum.splits)

text \<open>
  Claim C1, as amended. \<open>isStillValidListing\<close> returns \<open>true\<close> if and only if the
  marketplace is approved for the seller's token, both \<open>supportsInterface\<close> queries
  are answered, and either the asset contract supports ERC721 and \<open>ownerOf(tokenId)\<close>
  equals the seller's address up to letter case, or the asset contract does not support
  ERC721, supports ERC1155, and the seller's balance is at least the wanted quantity:
  the \<open>quantity\<close> argument when it is given and truthy, \<open>listing.quantity\<close>
  otherwise. When the approval query is answered and the asset contract supports
  neither interface, it returns \<open>false\<close>.
\<close>

theorem isStillValidListing_true_iff:
  "(let p = getProvider w (MarketplaceDirect.contractWrapper self);
        market = readContract_address w (MarketplaceDirect.contractWrapper self);
        a = DirectListing.assetContractAddress l;
        tid = DirectListing.tokenId l;
        seller = sellerAddress l in
    (result_of (isStillValidListing w l q) self = Inr True \<longleftrightarrow>
       isTokenApprovedForMarketplace w p market a tid seller = Inr True \<and>
       (\<exists>b. supportsInterface w p a (InterfaceId_IERC1155 w) = Inr b) \<and>
       (supportsInterface w p a (InterfaceId_IERC721 w) = Inr True \<and>
          (\<exists>owner. ownerOf w p a tid = Inr owner \<and> toLowerCase owner = toLowerCase seller)
        \<or> supportsInterface w p a (InterfaceId_IERC721 w) = Inr False \<and>
          supportsInterface w p a (InterfaceId_IERC1155 w) = Inr True \<and>
          (\<exists>balance wanted. balanceOf w p a seller tid = Inr balance \<and>
             BigNumber_from w (or_else q (DirectListing.quantity l)) = Inr wanted \<and>
             wanted \<le> balance))) \<and>
    ((\<exists>approved. isTokenApprovedForMarketplace w p market a tid seller = Inr approved) \<and>
     supportsInterface w p a (InterfaceId_IERC721 w) = Inr False \<and>
     supportsInterface w p a (InterfaceId_IERC1155 w) = Inr False
     \<longrightarrow> result_of (isStillValidListing w l q) self = Inr False))"
  unfolding isStillValidListing_result Let_def
  by (auto split: sum.splits)

theorem isStillValidListing_true_iff_witness:
  "result_of (isStillValidListing example_world example_direct_listing None) example_market
     = Inr True \<and>
   result_of (isStillValidListing erc1155_world example_direct_listing (Some (JSNumber 1)))
     example_market = Inr True \<and>
   result_of (isStillValidListing no_interface_world example_direct_listing None) example_market
     = Inr False"
  using isStillValidListing_true_iff [of example_world example_market example_direct_listing None]
    isStillValidListing_true_iff [of erc1155_world example_market example_direct_listing
      "Some (JSNumber 1)"]
    isStillValidListing_true_iff [of no_interface_world example_market example_direct_listing None]
  by (auto simp add: example_defs example_direct_listing_def erc1155_world_def
      no_interface_world_def toLowerCase_def lower_char_def BigNumber_from_def MAX_SAFE_def
      or_else_def)

text \<open>
  The claim as stated fails in two places. On a contract reporting both interfaces the
  ERC721 branch alone decides: the seller is approved and holds 5 of an ERC1155 token
  of which 2 are listed, yet the answer is \<open>false\<close> because \<open>ownerOf\<close> names someone
  else. And a supplied quantity of \<open>0\<close> is falsy, so \<open>listing.quantity = 2\<close> is
  compared with the balance 1 and the answer is \<open>false\<close>, although the balance is at
  least the quantity supplied.
\<close>

theorem isStillValidListing_counterexample:
  "isTokenApprovedForMarketplace both_interfaces_world 10 example_address example_asset
     (BigNumberObj 1) example_seller = Inr True \<and>
   supportsInterface both_interfaces_world 10 example_asset
     (InterfaceId_IERC1155 both_interfaces_world) = Inr True \<and>
   balanceOf both_interfaces_world 10 example_asset example_seller (BigNumberObj 1) = Inr 5 \<and>
   BigNumber_from both_interfaces_world (DirectListing.quantity example_direct_listing) = Inr 2 \<and>
   result_of (isStillValidListing both_interfaces_world example_direct_listing None)
     example_market = Inr False \<and>
   isTokenApprovedForMarketplace erc1155_world 10 example_address example_asset
     (BigNumberObj 1) example_seller = Inr True \<and>
   supportsInterface erc1155_world 10 example_asset (InterfaceId_IERC1155 erc1155_world)
     = Inr True \<and>
   balanceOf erc1155_world 10 example_asset example_seller (BigNumberObj 1) = Inr 1 \<and>
   BigNumber_from erc1155_world (JSNumber 0) = Inr 0 \<and>
   result_of (isStillValidListing erc1155_world example_direct_listing (Some (JSNumber 0)))
     example_market = Inr False"
  by (simp add: isStillValidListing_result example_defs example_direct_listing_def
      both_interfaces_world_def erc1155_world_def toLowerCase_def lower_char_def
      BigNumber_from_def MAX_SAFE_def or_else_def)

section \<open>getActiveOffer\<close>

lemma offers_read_validateListing [simp]: "offers_read (log_of (validateListing w n) self) = []"
  by (simp add: validateListing_def getListing_def mapListing_def getAddress_def await_defs
      offers_read_append split: sum.splits)

lemma getActiveOffer_result:
  "result_of (getActiveOffer w lid a) self =
    (case BigNumber_from w lid of
       Inl e \<Rightarrow> Inl e
     | Inr n \<Rightarrow>
        (case result_of (validateListing w n) self of
           Inl e \<Rightarrow> Inl e
         | Inr _ \<Rightarrow>
            if \<not> isAddress w a then Inl (InvariantError ''Address must be a valid address'')
            else (case readContract_offers w (MarketplaceDirect.contractWrapper self) lid a of
              Inl e \<Rightarrow> Inl e
            | Inr off \<Rightarrow>
                if OfferStruct.offeror off = AddressZero then Inr None
                else map_sum id Some
                  (mapOffer w (getProvider w (MarketplaceDirect.contractWrapper self)) n off))))"
  by (simp add: getActiveOffer_def await_defs invariant_def split: sum.splits)

text \<open>
  Claim C10, as amended. When the listing id converts, the listing validates (it
  exists, is direct and maps), the address is syntactically valid and the offer read
  from the contract has the zero address as offeror, \<open>getActiveOffer\<close> returns
  \<open>undefined\<close>. For every address that is not syntactically valid it throws, and it
  has read no offer from the contract.
\<close>

theorem getActiveOffer_outcome:
  "(BigNumber_from w lid = Inr n \<and> result_of (validateListing w n) self = Inr l \<and>
    isAddress w a \<and>
    readContract_offers w (MarketplaceDirect.contractWrapper self) lid a = Inr off \<and>
    OfferStruct.offeror off = AddressZero
    \<longrightarrow> result_of (getActiveOffer w lid a) self = Inr None) \<and>
   (\<not> isAddress w a
    \<longrightarrow> (\<exists>e. result_of (getActiveOffer w lid a) self = Inl e) \<and>
        offers_read (log_of (getActiveOffer w lid a) self) = [])"
  unfolding getActiveOffer_result
  by (auto simp: getActiveOffer_def await_defs invariant_def offers_read_append split: sum.splits)

theorem getActiveOffer_outcome_witness:
  "result_of (getActiveOffer example_world (JSNumber 7) example_buyer) example_market = Inr None \<and>
   (\<exists>e. result_of (getActiveOffer example_world (JSNumber 7) ''0x123'') example_market = Inl e) \<and>
   offers_read (log_of (getActiveOffer example_world (JSNumber 7) ''0x123'') example_market) = []"
  using getActiveOffer_outcome [of example_world "JSNumber 7" 7 example_market
      example_direct_listing example_buyer example_offer]
    getActiveOffer_outcome [of example_world "JSNumber 7" 7 example_market
      example_direct_listing "''0x123''" example_offer]
  by (simp add: example_defs example_direct_listing_def validateListing_def getListing_def
      mapListing_def getAddress_def await_defs BigNumber_from_def MAX_SAFE_def)

text \<open>
  The claim as stated promises \<open>undefined\<close> rather than an exception whenever the
  stored offer has the zero address as offeror. For a listing id never used, the offer
  stored is the zero struct, the address is valid, and the call throws
  \<open>ListingNotFoundError\<close>: the listing is validated before the offer is read.
\<close>

theorem getActiveOffer_counterexample:
  "BigNumber_from empty_listing_world (JSNumber 7) = Inr 7 \<and>
   isAddress empty_listing_world example_buyer \<and>
   readContract_offers empty_listing_world (MarketplaceDirect.contractWrapper example_market)
     (JSNumber 7) example_buyer = Inr example_offer \<and>
   OfferStruct.offeror example_offer = AddressZero \<and>
   result_of (getActiveOffer empty_listing_world (JSNumber 7) example_buyer) example_market
     = Inl (ListingNotFoundError example_address ''7'')"
  by (simp add: getActiveOffer_result example_defs empty_listing_world_def empty_listing_def
      validateListing_def getListing_def getAddress_def await_defs BigNumber_from_def MAX_SAFE_def)

section \<open>Facts about the read functions\<close>

lemma BigNumber_from_BigNumberObj [simp]: "BigNumber_from w (BigNumberObj n) = Inr n"
  by (simp add: BigNumber_from_def)

lemma mapListing_Inr:
  assumes "result_of (mapListing w raw) self = Inr listing"
  shows "\<exists>p. BigNumber_from w (ListingStruct.buyoutPricePerToken raw) = Inr p \<and>
             buyoutPrice listing = BigNumberObj p \<and>
             DirectListing.currencyContractAddress listing = ListingStruct.currency raw"
  using assms by (auto simp: mapListing_def await_defs split: sum.splits)

lemma validateListing_result:
  "result_of (validateListing w n) self = result_of (getListing w (BigNumberObj n)) self"
  by (simp add: validateListing_def split: sum.splits)

lemma getListing_Inr:
  assumes "result_of (getListing w lid) self = Inr listing"
  shows "\<exists>raw. readContract_listings w (MarketplaceDirect.contractWrapper self) lid = Inr raw \<and>
           ListingStruct.assetContract raw \<noteq> AddressZero \<and>
           ListingStruct.listingType raw = ListingType_Direct w \<and>
           result_of (mapListing w raw) self = Inr listing"
  using assms
  by (auto simp: getListing_def getAddress_def await_defs split: sum.splits if_splits)

lemma validateListing_Inr_price:
  assumes "result_of (validateListing w m) self = Inr listing"
  shows "\<exists>b. buyoutPrice listing = BigNumberObj b"
proof -
  from assms obtain raw where "result_of (mapListing w raw) self = Inr listing"
    using getListing_Inr [of w "BigNumberObj m" self listing]
    by (auto simp: validateListing_result)
  then show ?thesis
    using mapListing_Inr [of w raw self listing] by blast
qed

lemma log_getListing_reads:
  "sent fn (log_of (getListing w lid) self) = []"
  "Call_setErc20Allowance c v cur ov \<notin> set (log_of (getListing w lid) self)"
  by (simp_all add: getListing_def mapListing_def getAddress_def await_defs sent_append
      split: sum.splits)

lemma log_validateListing_reads:
  "sent fn (log_of (validateListing w n) self) = []"
  "Call_setErc20Allowance c v cur ov \<notin> set (log_of (validateListing w n) self)"
  by (simp_all add: validateListing_def log_getListing_reads sent_append split: sum.splits)

lemma log_isStillValidListing_reads:
  "sent fn (log_of (isStillValidListing w l q) self) = []"
  "Call_setErc20Allowance c v cur ov \<notin> set (log_of (isStillValidListing w l q) self)"
  by (simp_all add: isStillValidListing_def getAddress_def await_defs sent_append Let_def
      split: sum.splits)

section \<open>Example runs\<close>

lemmas run_defs =
  buyoutListing_def makeOffer_def createListing_def validateListing_def getListing_def
  mapListing_def isStillValidListing_def getAddress_def await_defs Let_def BigNumber_from_def
  MAX_SAFE_def or_empty_def or_else_def toLowerCase_def lower_char_def seconds_of_def

lemma example_buyoutListing_log:
  "log_of (buyoutListing example_world (JSNumber 7) (JSNumber 3) None) example_market =
     [Call_listings 1 (BigNumberObj 7),
      Call_fetchCurrencyValue 10 example_currency (BigNumberObj 50),
      Call_fetchTokenMetadataForContract example_asset 10 (BigNumberObj 1) 2,
      Call_isTokenApprovedForMarketplace 10 example_address example_asset (BigNumberObj 1)
        example_seller,
      Call_supportsInterface 10 example_asset ''0x80ac58cd'',
      Call_supportsInterface 10 example_asset ''0xd9b67a26'',
      Call_ownerOf 10 example_asset (BigNumberObj 1),
      Call_getSignerAddress 1,
      Call_getCallOverrides 1,
      Call_setErc20Allowance 1 150 example_currency [],
      Call_sendTransaction 1 ''buy''
        [ArgBigNumberish (JSNumber 7), ArgString example_buyer,
         ArgBigNumberish (BigNumberObj 3), ArgString example_currency,
         ArgBigNumberish (BigNumberObj 150)]
        (Some [])]"
  by (simp add: example_defs run_defs)

lemma example_makeOffer_log:
  "log_of (makeOffer example_world (JSNumber 7) (JSNumber 3) example_currency ''1.5'' None)
     example_market =
     [Call_normalizePriceValue 10 ''1.5'' example_currency,
      Call_listings 1 (JSNumber 7),
      Call_fetchCurrencyValue 10 example_currency (BigNumberObj 50),
      Call_fetchTokenMetadataForContract example_asset 10 (BigNumberObj 1) 2,
      Call_getCallOverrides 1,
      Call_setErc20Allowance 1 4500 example_currency [],
      Call_sendTransaction 1 ''offer''
        [ArgBigNumberish (JSNumber 7), ArgBigNumberish (JSNumber 3), ArgString example_currency,
         ArgBigNumberish (BigNumberObj 1500), ArgBigNumberish (BigNumberObj MaxUint256)]
        (Some [])]"
  by (simp add: example_defs run_defs)

lemma example_createListing_log:
  "log_of (createListing example_world example_new_listing) example_market =
     [Call_getSignerAddress 1,
      Call_handleTokenApproval 11 example_address example_asset (JSString ''0'') example_buyer,
      Call_normalizePriceValue 10 ''1.5'' example_native,
      Call_getBlock 10,
      Call_sendTransaction 1 ''createListing''
        [ArgStruct
           \<lparr>ListingParametersStruct.assetContract = example_asset,
            tokenId = JSString ''0'',
            buyoutPricePerToken = BigNumberObj 1500,
            currencyToAccept = example_native,
            listingType = 0,
            quantityToList = JSNumber 1,
            reservePricePerToken = BigNumberObj 1500,
            secondsUntilEndTime = JSNumber 86400,
            startTime = BigNumberObj 1700000000\<rparr>]
        (Some [(''gasLimit'', 500000)])]"
  by (simp add: example_defs example_new_listing_def run_defs)

lemma example_future_createListing_log:
  "log_of (createListing example_world example_future_listing) example_market =
     [Call_getSignerAddress 1,
      Call_handleTokenApproval 11 example_address example_asset (JSString ''0'') example_buyer,
      Call_normalizePriceValue 10 ''1.5'' example_native,
      Call_getBlock 10,
      Call_sendTransaction 1 ''createListing''
        [ArgStruct
           \<lparr>ListingParametersStruct.assetContract = example_asset,
            tokenId = JSString ''0'',
            buyoutPricePerToken = BigNumberObj 1500,
            currencyToAccept = example_native,
            listingType = 0,
            quantityToList = JSNumber 1,
            reservePricePerToken = BigNumberObj 1500,
            secondsUntilEndTime = JSNumber 86400,
            startTime = BigNumberObj 1800000000\<rparr>]
        (Some [(''gasLimit'', 500000)])]"
  by (simp add: example_defs example_new_listing_def example_future_listing_def run_defs)

section \<open>buyoutListing\<close>

text \<open>
  Claim C4. Whenever the listing id converts, the listing validates and
  \<open>isStillValidListing\<close> returns \<open>false\<close> for it and the desired quantity,
  \<open>buyoutListing\<close> throws and sends no \<open>buy\<close> transaction. And whenever a \<open>buy\<close>
  transaction is sent, the listing read from the contract was found (its asset
  contract is not the zero address), is of \<open>Direct\<close> type, and
  \<open>isStillValidListing\<close> returned \<open>true\<close> for it.
\<close>

theorem buyoutListing_guard:
  "(BigNumber_from w lid = Inr n \<and> result_of (validateListing w n) self = Inr listing \<and>
    result_of (isStillValidListing w listing (Some quantityDesired)) self = Inr False
    \<longrightarrow> result_of (buyoutListing w lid quantityDesired receiver) self =
          Inl (Error (''The asset on this listing has been moved from the lister's wallet, '' @
                      ''this listing is now invalid'')) \<and>
        sent ''buy'' (log_of (buyoutListing w lid quantityDesired receiver) self) = []) \<and>
   (sent ''buy'' (log_of (buyoutListing w lid quantityDesired receiver) self) \<noteq> []
    \<longrightarrow> (\<exists>m raw found.
          BigNumber_from w lid = Inr m \<and>
          readContract_listings w (MarketplaceDirect.contractWrapper self) (BigNumberObj m)
            = Inr raw \<and>
          ListingStruct.assetContract raw \<noteq> AddressZero \<and>
          ListingStruct.listingType raw = ListingType_Direct w \<and>
          result_of (validateListing w m) self = Inr found \<and>
          result_of (isStillValidListing w found (Some quantityDesired)) self = Inr True))"
proof (intro conjI impI)
  assume h: "BigNumber_from w lid = Inr n \<and> result_of (validateListing w n) self = Inr listing \<and>
    result_of (isStillValidListing w listing (Some quantityDesired)) self = Inr False"
  then show "result_of (buyoutListing w lid quantityDesired receiver) self =
          Inl (Error (''The asset on this listing has been moved from the lister's wallet, '' @
                      ''this listing is now invalid''))"
    by (simp add: buyoutListing_def await_defs Let_def)
  from h show "sent ''buy'' (log_of (buyoutListing w lid quantityDesired receiver) self) = []"
    by (simp add: buyoutListing_def await_defs Let_def sent_append log_validateListing_reads
        log_isStillValidListing_reads)
next
  assume s: "sent ''buy'' (log_of (buyoutListing w lid quantityDesired receiver) self) \<noteq> []"
  then obtain m found where m: "BigNumber_from w lid = Inr m"
    and f: "result_of (validateListing w m) self = Inr found"
    and v: "result_of (isStillValidListing w found (Some quantityDesired)) self = Inr True"
    by (auto simp: buyoutListing_def await_defs Let_def sent_append log_validateListing_reads
        log_isStillValidListing_reads split: sum.splits if_splits)
  from f obtain raw where
    "readContract_listings w (MarketplaceDirect.contractWrapper self) (BigNumberObj m) = Inr raw"
    "ListingStruct.assetContract raw \<noteq> AddressZero"
    "ListingStruct.listingType raw = ListingType_Direct w"
    using getListing_Inr [of w "BigNumberObj m" self found] by (auto simp: validateListing_result)
  with m f v show "\<exists>m raw found.
          BigNumber_from w lid = Inr m \<and>
          readContract_listings w (MarketplaceDirect.contractWrapper self) (BigNumberObj m)
            = Inr raw \<and>
          ListingStruct.assetContract raw \<noteq> AddressZero \<and>
          ListingStruct.listingType raw = ListingType_Direct w \<and>
          result_of (validateListing w m) self = Inr found \<and>
          result_of (isStillValidListing w found (Some quantityDesired)) self = Inr True"
    by blast
qed

theorem buyoutListing_guard_witness:
  "result_of (buyoutListing no_interface_world (JSNumber 7) (JSNumber 1) None) example_market =
     Inl (Error (''The asset on this listing has been moved from the lister's wallet, '' @
                 ''this listing is now invalid'')) \<and>
   sent ''buy'' (log_of (buyoutListing no_interface_world (JSNumber 7) (JSNumber 1) None)
     example_market) = [] \<and>
   sent ''buy'' (log_of (buyoutListing example_world (JSNumber 7) (JSNumber 1) None)
     example_market) \<noteq> [] \<and>
   (\<exists>m raw found.
      BigNumber_from example_world (JSNumber 7) = Inr m \<and>
      readContract_listings example_world (MarketplaceDirect.contractWrapper example_market)
        (BigNumberObj m) = Inr raw \<and>
      ListingStruct.assetContract raw \<noteq> AddressZero \<and>
      ListingStruct.listingType raw = ListingType_Direct example_world \<and>
      result_of (validateListing example_world m) example_market = Inr found \<and>
      result_of (isStillValidListing example_world found (Some (JSNumber 1))) example_market
        = Inr True)"
proof -
  have a: "BigNumber_from no_interface_world (JSNumber 7) = Inr 7 \<and>
      result_of (validateListing no_interface_world 7) example_market
        = Inr example_direct_listing \<and>
      result_of (isStillValidListing no_interface_world example_direct_listing
        (Some (JSNumber 1))) example_market = Inr False"
    by (simp add: no_interface_world_def example_defs example_direct_listing_def
        validateListing_def getListing_def mapListing_def isStillValidListing_def getAddress_def
        await_defs Let_def BigNumber_from_def MAX_SAFE_def)
  have b: "sent ''buy'' (log_of (buyoutListing example_world (JSNumber 7) (JSNumber 1) None)
     example_market) \<noteq> []"
    by (simp add: example_defs buyoutListing_def
        validateListing_def getListing_def mapListing_def isStillValidListing_def getAddress_def
        await_defs Let_def BigNumber_from_def MAX_SAFE_def sent_append or_empty_def
        toLowerCase_def lower_char_def)
  show ?thesis
    using buyoutListing_guard [of no_interface_world "JSNumber 7" 7 example_market
        example_direct_listing "JSNumber 1" None]
      buyoutListing_guard [of example_world "JSNumber 7" 7 example_market
        example_direct_listing "JSNumber 1" None] a b
    by blast
qed

section \<open>The total value of an offer and of a buyout\<close>

lemma logged_values_are_products:
  "(Call_setErc20Allowance c v cur ov
      \<in> set (log_of (makeOffer w lid quantityDesired currencyAddress price expiry) self)
    \<longrightarrow> (\<exists>normalizedPrice quantity.
          normalizePriceValue w (getProvider w (MarketplaceDirect.contractWrapper self)) price
            currencyAddress = Inr normalizedPrice \<and>
          BigNumber_from w quantityDesired = Inr quantity \<and>
          v = normalizedPrice * quantity)) \<and>
   (Call_setErc20Allowance c v cur ov
      \<in> set (log_of (buyoutListing w lid quantityDesired receiver) self)
    \<longrightarrow> (\<exists>m listing buyout quantity.
          BigNumber_from w lid = Inr m \<and>
          result_of (validateListing w m) self = Inr listing \<and>
          buyoutPrice listing = BigNumberObj buyout \<and>
          BigNumber_from w quantityDesired = Inr quantity \<and>
          v = buyout * quantity)) \<and>
   ((c', args, ov') \<in> set (sent ''buy'' (log_of (buyoutListing w lid quantityDesired receiver) self))
    \<longrightarrow> (\<exists>m listing buyout quantity buyFor.
          BigNumber_from w lid = Inr m \<and>
          result_of (validateListing w m) self = Inr listing \<and>
          buyoutPrice listing = BigNumberObj buyout \<and>
          BigNumber_from w quantityDesired = Inr quantity \<and>
          args = [ArgBigNumberish lid, ArgString buyFor, ArgBigNumberish (BigNumberObj quantity),
                  ArgString (DirectListing.currencyContractAddress listing),
                  ArgBigNumberish (BigNumberObj (buyout * quantity))]))"
proof (intro conjI impI)
  assume "Call_setErc20Allowance c v cur ov
      \<in> set (log_of (makeOffer w lid quantityDesired currencyAddress price expiry) self)"
  then show "\<exists>normalizedPrice quantity.
          normalizePriceValue w (getProvider w (MarketplaceDirect.contractWrapper self)) price
            currencyAddress = Inr normalizedPrice \<and>
          BigNumber_from w quantityDesired = Inr quantity \<and>
          v = normalizedPrice * quantity"
    by (auto simp: makeOffer_def await_defs Let_def log_getListing_reads
        split: sum.splits if_splits option.splits; metis)
next
  assume h: "Call_setErc20Allowance c v cur ov
      \<in> set (log_of (buyoutListing w lid quantityDesired receiver) self)"
  then obtain m listing p quantity where
    "BigNumber_from w lid = Inr m" "result_of (validateListing w m) self = Inr listing"
    "BigNumber_from w (buyoutPrice listing) = Inr p"
    "BigNumber_from w quantityDesired = Inr quantity" "v = p * quantity"
    by (auto simp: buyoutListing_def await_defs Let_def log_validateListing_reads
        log_isStillValidListing_reads split: sum.splits if_splits option.splits; metis)
  moreover from this obtain b where "buyoutPrice listing = BigNumberObj b"
    using validateListing_Inr_price [of w m self listing] by blast
  ultimately show "\<exists>m listing buyout quantity.
          BigNumber_from w lid = Inr m \<and>
          result_of (validateListing w m) self = Inr listing \<and>
          buyoutPrice listing = BigNumberObj buyout \<and>
          BigNumber_from w quantityDesired = Inr quantity \<and>
          v = buyout * quantity"
    by auto
next
  assume h: "(c', args, ov')
      \<in> set (sent ''buy'' (log_of (buyoutListing w lid quantityDesired receiver) self))"
  then obtain m listing p quantity buyFor where
    "BigNumber_from w lid = Inr m" "result_of (validateListing w m) self = Inr listing"
    "BigNumber_from w (buyoutPrice listing) = Inr p"
    "BigNumber_from w quantityDesired = Inr quantity"
    "args = [ArgBigNumberish lid, ArgString buyFor, ArgBigNumberish (BigNumberObj quantity),
                  ArgString (DirectListing.currencyContractAddress listing),
                  ArgBigNumberish (BigNumberObj (p * quantity))]"
    by (auto simp: buyoutListing_def await_defs Let_def log_validateListing_reads sent_append
        log_isStillValidListing_reads split: sum.splits if_splits option.splits; metis)
  moreover from this obtain b where "buyoutPrice listing = BigNumberObj b"
    using validateListing_Inr_price [of w m self listing] by blast
  ultimately show "\<exists>m listing buyout quantity buyFor.
          BigNumber_from w lid = Inr m \<and>
          result_of (validateListing w m) self = Inr listing \<and>
          buyoutPrice listing = BigNumberObj buyout \<and>
          BigNumber_from w quantityDesired = Inr quantity \<and>
          args = [ArgBigNumberish lid, ArgString buyFor, ArgBigNumberish (BigNumberObj quantity),
                  ArgString (DirectListing.currencyContractAddress listing),
                  ArgBigNumberish (BigNumberObj (buyout * quantity))]"
    by auto
qed


lemma makeOffer_sets_allowance:
  assumes "\<not> isNativeToken w currencyAddress \<and>
    normalizePriceValue w (getProvider w (MarketplaceDirect.contractWrapper self)) price currencyAddress = Inr offered \<and>
    result_of (getListing w lid) self = Inr found \<and>
    BigNumber_from w quantityDesired = Inr wanted \<and>
    getCallOverrides w (MarketplaceDirect.contractWrapper self) = Inr callOv"
  shows "Call_setErc20Allowance (MarketplaceDirect.contractWrapper self) (offered * wanted) currencyAddress
          (or_empty callOv)
          \<in> set (log_of (makeOffer w lid quantityDesired currencyAddress price expiry) self)"
  using assms
  by (simp add: makeOffer_def await_defs Let_def split: sum.splits option.splits)

lemma buyoutListing_sets_allowance:
  assumes "BigNumber_from w lid = Inr n \<and>
    result_of (validateListing w n) self = Inr bought \<and>
    result_of (isStillValidListing w bought (Some quantityDesired)) self = Inr True \<and>
    (case receiver of
       None \<Rightarrow> getSignerAddress w (MarketplaceDirect.contractWrapper self)
     | Some a \<Rightarrow> if a \<noteq> [] then Inr a else getSignerAddress w (MarketplaceDirect.contractWrapper self)) = Inr buyFor \<and>
    BigNumber_from w quantityDesired = Inr wanted \<and>
    buyoutPrice bought = BigNumberObj buyoutValue \<and>
    getCallOverrides w (MarketplaceDirect.contractWrapper self) = Inr callOv \<and>
    setErc20Allowance w (MarketplaceDirect.contractWrapper self) (buyoutValue * wanted)
      (DirectListing.currencyContractAddress bought) (or_empty callOv) = Inr newOv"
  shows "Call_setErc20Allowance (MarketplaceDirect.contractWrapper self) (buyoutValue * wanted)
          (DirectListing.currencyContractAddress bought) (or_empty callOv)
          \<in> set (log_of (buyoutListing w lid quantityDesired receiver) self) \<and>
        sent ''buy'' (log_of (buyoutListing w lid quantityDesired receiver) self) =
          [(MarketplaceDirect.contractWrapper self,
            [ArgBigNumberish lid, ArgString buyFor, ArgBigNumberish (BigNumberObj wanted),
             ArgString (DirectListing.currencyContractAddress bought),
             ArgBigNumberish (BigNumberObj (buyoutValue * wanted))],
            Some newOv)]"
  using assms
  by (cases receiver)
    (auto simp add: buyoutListing_def await_defs Let_def sent_append log_validateListing_reads
      log_isStillValidListing_reads split: sum.splits if_splits)

text \<open>
  Claim C7. When the calls before it succeed, \<open>makeOffer\<close> sets the ERC20 allowance
  to the integer product of the normalised offer price and the desired quantity; and
  \<open>buyoutListing\<close> sets it to the integer product of the listing's buyout price and
  the desired quantity and then sends one \<open>buy\<close> transaction whose value argument is
  that same product. Conversely every allowance either method sets, and every \<open>buy\<close>
  transaction \<open>buyoutListing\<close> sends, carries such a product. The product is that of
  unbounded integers: nothing is rounded.
\<close>

theorem total_value_is_exact_product:
  "(\<not> isNativeToken w currencyAddress \<and>
    normalizePriceValue w (getProvider w (MarketplaceDirect.contractWrapper self)) price currencyAddress = Inr offered \<and>
    result_of (getListing w lid) self = Inr found \<and>
    BigNumber_from w quantityDesired = Inr wanted \<and>
    getCallOverrides w (MarketplaceDirect.contractWrapper self) = Inr callOv
    \<longrightarrow> Call_setErc20Allowance (MarketplaceDirect.contractWrapper self) (offered * wanted) currencyAddress
          (or_empty callOv)
          \<in> set (log_of (makeOffer w lid quantityDesired currencyAddress price expiry) self)) \<and>
   (BigNumber_from w lid = Inr n \<and>
    result_of (validateListing w n) self = Inr bought \<and>
    result_of (isStillValidListing w bought (Some quantityDesired)) self = Inr True \<and>
    (case receiver of
       None \<Rightarrow> getSignerAddress w (MarketplaceDirect.contractWrapper self)
     | Some a \<Rightarrow> if a \<noteq> [] then Inr a else getSignerAddress w (MarketplaceDirect.contractWrapper self)) = Inr buyFor \<and>
    BigNumber_from w quantityDesired = Inr wanted \<and>
    buyoutPrice bought = BigNumberObj buyoutValue \<and>
    getCallOverrides w (MarketplaceDirect.contractWrapper self) = Inr callOv \<and>
    setErc20Allowance w (MarketplaceDirect.contractWrapper self) (buyoutValue * wanted)
      (DirectListing.currencyContractAddress bought) (or_empty callOv) = Inr newOv
    \<longrightarrow> Call_setErc20Allowance (MarketplaceDirect.contractWrapper self) (buyoutValue * wanted)
          (DirectListing.currencyContractAddress bought) (or_empty callOv)
          \<in> set (log_of (buyoutListing w lid quantityDesired receiver) self) \<and>
        sent ''buy'' (log_of (buyoutListing w lid quantityDesired receiver) self) =
          [(MarketplaceDirect.contractWrapper self,
            [ArgBigNumberish lid, ArgString buyFor, ArgBigNumberish (BigNumberObj wanted),
             ArgString (DirectListing.currencyContractAddress bought),
             ArgBigNumberish (BigNumberObj (buyoutValue * wanted))],
            Some newOv)]) \<and>
   (Call_setErc20Allowance c v cur ov
      \<in> set (log_of (makeOffer w lid quantityDesired currencyAddress price expiry) self)
    \<longrightarrow> (\<exists>normalizedPrice quantity.
          normalizePriceValue w (getProvider w (MarketplaceDirect.contractWrapper self)) price
            currencyAddress = Inr normalizedPrice \<and>
          BigNumber_from w quantityDesired = Inr quantity \<and>
          v = normalizedPrice * quantity)) \<and>
   (Call_setErc20Allowance c v cur ov
      \<in> set (log_of (buyoutListing w lid quantityDesired receiver) self)
    \<longrightarrow> (\<exists>m listing buyout quantity.
          BigNumber_from w lid = Inr m \<and>
          result_of (validateListing w m) self = Inr listing \<and>
          buyoutPrice listing = BigNumberObj buyout \<and>
          BigNumber_from w quantityDesired = Inr quantity \<and>
          v = buyout * quantity)) \<and>
   ((c', args, ov') \<in> set (sent ''buy'' (log_of (buyoutListing w lid quantityDesired receiver) self))
    \<longrightarrow> (\<exists>m listing buyout quantity buyFor.
          BigNumber_from w lid = Inr m \<and>
          result_of (validateListing w m) self = Inr listing \<and>
          buyoutPrice listing = BigNumberObj buyout \<and>
          BigNumber_from w quantityDesired = Inr quantity \<and>
          args = [ArgBigNumberish lid, ArgString buyFor, ArgBigNumberish (BigNumberObj quantity),
                  ArgString (DirectListing.currencyContractAddress listing),
                  ArgBigNumberish (BigNumberObj (buyout * quantity))]))"
  using makeOffer_sets_allowance [of w currencyAddress self price offered lid found
      quantityDesired wanted callOv expiry]
    buyoutListing_sets_allowance [of w lid n self bought quantityDesired receiver buyFor wanted
      buyoutValue callOv newOv]
    logged_values_are_products [of c v cur ov w lid quantityDesired currencyAddress price expiry
      self receiver c' args ov']
  by blast

theorem total_value_is_exact_product_witness:
  "Call_setErc20Allowance 1 (1500 * 3) example_currency []
     \<in> set (log_of (makeOffer example_world (JSNumber 7) (JSNumber 3) example_currency ''1.5''
          None) example_market) \<and>
   Call_setErc20Allowance 1 (50 * 3) example_currency []
     \<in> set (log_of (buyoutListing example_world (JSNumber 7) (JSNumber 3) None) example_market) \<and>
   sent ''buy'' (log_of (buyoutListing example_world (JSNumber 7) (JSNumber 3) None)
     example_market) =
     [(1, [ArgBigNumberish (JSNumber 7), ArgString example_buyer,
           ArgBigNumberish (BigNumberObj 3), ArgString example_currency,
           ArgBigNumberish (BigNumberObj (50 * 3))], Some [])]"
  using total_value_is_exact_product [where w = example_world and self = example_market
      and lid = "JSNumber 7" and quantityDesired = "JSNumber 3"
      and currencyAddress = example_currency and price = "''1.5''" and expiry = None
      and receiver = None and offered = 1500 and wanted = 3 and callOv = None
      and found = example_direct_listing and bought = example_direct_listing and n = 7
      and buyFor = example_buyer and buyoutValue = 50 and newOv = "[]"]
  by (simp add: example_defs example_direct_listing_def validateListing_def getListing_def
      mapListing_def isStillValidListing_def getAddress_def await_defs Let_def BigNumber_from_def
      MAX_SAFE_def or_empty_def or_else_def toLowerCase_def lower_char_def)

section \<open>makeOffer\<close>

text \<open>
  Claim C5, as amended. For a native token address \<open>makeOffer\<close> throws with an empty
  log: no price was normalised, no allowance set, no transaction sent. For a currency
  that is not native and a listing that \<open>getListing\<close> returns (it exists, is of
  \<open>Direct\<close> type and maps), when the price normalises, the quantity and the
  expiration convert, and the overrides and the allowance calls succeed, it sends
  exactly one \<open>offer\<close> transaction, with the listing id, the desired quantity, the
  currency, the normalised price and the expiration.
\<close>

theorem makeOffer_native_guard:
  "(isNativeToken w currencyAddress
    \<longrightarrow> result_of (makeOffer w lid quantityDesired currencyAddress price expiry) self =
          Inl (Error (''You must use the wrapped native token address '' @
                      ''when making an offer with a native token'')) \<and>
        log_of (makeOffer w lid quantityDesired currencyAddress price expiry) self = []) \<and>
   (\<not> isNativeToken w currencyAddress \<and>
    normalizePriceValue w (getProvider w (MarketplaceDirect.contractWrapper self)) price
      currencyAddress = Inr normalizedPrice \<and>
    result_of (getListing w lid) self = Inr listing \<and>
    BigNumber_from w quantityDesired = Inr qty \<and>
    getCallOverrides w (MarketplaceDirect.contractWrapper self) = Inr ov \<and>
    setErc20Allowance w (MarketplaceDirect.contractWrapper self) (normalizedPrice * qty)
      currencyAddress (or_empty ov) = Inr overrides \<and>
    (case expiry of None \<Rightarrow> Inr MaxUint256
     | Some d \<Rightarrow> BigNumber_from w (JSNumber (seconds_of d))) = Inr expiration
    \<longrightarrow> sent ''offer'' (log_of (makeOffer w lid quantityDesired currencyAddress price expiry) self) =
          [(MarketplaceDirect.contractWrapper self,
            [ArgBigNumberish lid, ArgBigNumberish quantityDesired, ArgString currencyAddress,
             ArgBigNumberish (BigNumberObj normalizedPrice),
             ArgBigNumberish (BigNumberObj expiration)],
            Some overrides)])"
  by (cases expiry)
    (auto simp add: makeOffer_def await_defs Let_def sent_append log_getListing_reads
      split: sum.splits)

theorem makeOffer_native_guard_witness:
  "result_of (makeOffer example_world (JSNumber 7) (JSNumber 3) example_native ''1.5'' None)
     example_market =
     Inl (Error (''You must use the wrapped native token address '' @
                 ''when making an offer with a native token'')) \<and>
   log_of (makeOffer example_world (JSNumber 7) (JSNumber 3) example_native ''1.5'' None)
     example_market = [] \<and>
   sent ''offer''
     (log_of (makeOffer example_world (JSNumber 7) (JSNumber 3) example_currency ''1.5'' None)
        example_market) =
     [(1, [ArgBigNumberish (JSNumber 7), ArgBigNumberish (JSNumber 3), ArgString example_currency,
           ArgBigNumberish (BigNumberObj 1500), ArgBigNumberish (BigNumberObj MaxUint256)],
       Some [])]"
  using makeOffer_native_guard [of example_world example_native "JSNumber 7" "JSNumber 3"
      "''1.5''" None example_market]
    makeOffer_native_guard [of example_world example_currency "JSNumber 7" "JSNumber 3"
      "''1.5''" None example_market 1500 example_direct_listing 3 None "[]" MaxUint256]
  by (simp add: example_defs example_direct_listing_def getListing_def mapListing_def
      getAddress_def await_defs BigNumber_from_def MAX_SAFE_def or_empty_def)

text \<open>
  The claim as stated promises the offer transaction for every existing listing. For a
  listing that exists as an auction, with a currency that is not native and every
  outside call succeeding, \<open>makeOffer\<close> throws and sends no offer.
\<close>

theorem makeOffer_auction_counterexample:
  "\<not> isNativeToken auction_world example_currency \<and>
   readContract_listings auction_world (MarketplaceDirect.contractWrapper example_market)
     (JSNumber 7) = Inr auction_listing \<and>
   ListingStruct.assetContract auction_listing \<noteq> AddressZero \<and>
   result_of (makeOffer auction_world (JSNumber 7) (JSNumber 3) example_currency ''1.5'' None)
     example_market = Inl (Error (''Error getting the listing with id '' @ ''7'')) \<and>
   sent ''offer''
     (log_of (makeOffer auction_world (JSNumber 7) (JSNumber 3) example_currency ''1.5'' None)
        example_market) = []"
  by (simp add: auction_world_def auction_listing_def example_defs run_defs)

section \<open>createListing\<close>

lemma createListing_sent:
  assumes "(c, args, ov) \<in> set (sent fn (log_of (createListing w listing) self))"
  shows "\<exists>normalized blockTime.
     normalizePriceValue w (getProvider w (MarketplaceDirect.contractWrapper self))
       (NewDirectListing.buyoutPricePerToken listing)
       (NewDirectListing.currencyContractAddress listing) = Inr normalized \<and>
     getBlock_latest_timestamp w (getProvider w (MarketplaceDirect.contractWrapper self))
       = Inr blockTime \<and>
     fn = ''createListing'' \<and>
     c = MarketplaceDirect.contractWrapper self \<and>
     ov = Some [(''gasLimit'', 500000)] \<and>
     args = [ArgStruct
        \<lparr>ListingParametersStruct.assetContract = NewDirectListing.assetContractAddress listing,
         tokenId = NewDirectListing.tokenId listing,
         buyoutPricePerToken = BigNumberObj normalized,
         currencyToAccept = NewDirectListing.currencyContractAddress listing,
         listingType = ListingType_Direct w,
         quantityToList = NewDirectListing.quantity listing,
         reservePricePerToken = BigNumberObj normalized,
         secondsUntilEndTime = listingDurationInSeconds listing,
         startTime = BigNumberObj (max (seconds_of (startTimestamp listing)) blockTime)\<rparr>]"
  using assms
  by (auto simp: createListing_def getAddress_def await_defs Let_def sent_append
      BigNumber_from_def max_def
      split: sum.splits if_splits list.splits; metis)

lemma createListing_normalizes:
  assumes "(c, args, ov) \<in> set (sent fn (log_of (createListing w listing) self))"
  shows "Call_normalizePriceValue (getProvider w (MarketplaceDirect.contractWrapper self))
       (NewDirectListing.buyoutPricePerToken listing)
       (NewDirectListing.currencyContractAddress listing)
     \<in> set (log_of (createListing w listing) self)"
  using assms
  by (auto simp: createListing_def getAddress_def await_defs Let_def sent_append
      split: sum.splits if_splits list.splits)

text \<open>
  When every call before it succeeds, \<open>createListing\<close> makes these five calls, the
  last of them the \<open>createListing\<close> transaction.
\<close>

lemma createListing_sends:
  assumes "validateNewListingParam w listing = Inr () \<and>
    getSignerAddress w (MarketplaceDirect.contractWrapper self) = Inr signer \<and>
    handleTokenApproval w (getSignerOrProvider w (MarketplaceDirect.contractWrapper self))
      (readContract_address w (MarketplaceDirect.contractWrapper self))
      (NewDirectListing.assetContractAddress listing) (NewDirectListing.tokenId listing)
      signer = Inr () \<and>
    normalizePriceValue w (getProvider w (MarketplaceDirect.contractWrapper self))
      (NewDirectListing.buyoutPricePerToken listing)
      (NewDirectListing.currencyContractAddress listing) = Inr normalized \<and>
    getBlock_latest_timestamp w (getProvider w (MarketplaceDirect.contractWrapper self))
      = Inr blockTime \<and>
    BigNumber_from w (JSNumber (max (startTimestamp listing div 1000) blockTime))
      = Inr (max (startTimestamp listing div 1000) blockTime)"
  shows "log_of (createListing w listing) self =
     [Call_getSignerAddress (MarketplaceDirect.contractWrapper self),
      Call_handleTokenApproval (getSignerOrProvider w (MarketplaceDirect.contractWrapper self))
        (readContract_address w (MarketplaceDirect.contractWrapper self))
        (NewDirectListing.assetContractAddress listing) (NewDirectListing.tokenId listing) signer,
      Call_normalizePriceValue (getProvider w (MarketplaceDirect.contractWrapper self))
        (NewDirectListing.buyoutPricePerToken listing)
        (NewDirectListing.currencyContractAddress listing),
      Call_getBlock (getProvider w (MarketplaceDirect.contractWrapper self)),
      Call_sendTransaction (MarketplaceDirect.contractWrapper self) ''createListing''
        [ArgStruct
           \<lparr>ListingParametersStruct.assetContract = NewDirectListing.assetContractAddress listing,
            tokenId = NewDirectListing.tokenId listing,
            buyoutPricePerToken = BigNumberObj normalized,
            currencyToAccept = NewDirectListing.currencyContractAddress listing,
            listingType = ListingType_Direct w,
            quantityToList = NewDirectListing.quantity listing,
            reservePricePerToken = BigNumberObj normalized,
            secondsUntilEndTime = listingDurationInSeconds listing,
            startTime = BigNumberObj (max (startTimestamp listing div 1000) blockTime)\<rparr>]
        (Some [(''gasLimit'', 500000)])]"
proof (cases "startTimestamp listing div 1000 < blockTime")
  case True
  with assms show ?thesis
    by (simp add: createListing_def getAddress_def await_defs Let_def seconds_of_def max_def
        split: sum.splits list.splits)
next
  case False
  with assms show ?thesis
    by (simp add: createListing_def getAddress_def await_defs Let_def seconds_of_def max_def
        split: sum.splits list.splits)
qed

text \<open>
  Claim C3. When the listing validates, the token approval is handled, the price
  normalises, the latest block is read and the start time converts,
  \<open>createListing\<close> normalises the buyout price with \<open>normalizePriceValue\<close> for the
  listing's currency and sends exactly one \<open>createListing\<close> transaction, whose
  argument carries that one normalised value both as \<open>buyoutPricePerToken\<close> and as
  \<open>reservePricePerToken\<close>, with \<open>listingType\<close> \<open>Direct\<close>. And every
  \<open>createListing\<close> transaction it ever sends has these properties.
\<close>

theorem createListing_price_fields:
  "(validateNewListingParam w listing = Inr () \<and>
    getSignerAddress w (MarketplaceDirect.contractWrapper self) = Inr signer \<and>
    handleTokenApproval w (getSignerOrProvider w (MarketplaceDirect.contractWrapper self))
      (readContract_address w (MarketplaceDirect.contractWrapper self))
      (NewDirectListing.assetContractAddress listing) (NewDirectListing.tokenId listing)
      signer = Inr () \<and>
    normalizePriceValue w (getProvider w (MarketplaceDirect.contractWrapper self))
      (NewDirectListing.buyoutPricePerToken listing)
      (NewDirectListing.currencyContractAddress listing) = Inr normalized \<and>
    getBlock_latest_timestamp w (getProvider w (MarketplaceDirect.contractWrapper self))
      = Inr blockTime \<and>
    BigNumber_from w (JSNumber (max (startTimestamp listing div 1000) blockTime))
      = Inr (max (startTimestamp listing div 1000) blockTime)
    \<longrightarrow> Call_normalizePriceValue (getProvider w (MarketplaceDirect.contractWrapper self))
          (NewDirectListing.buyoutPricePerToken listing)
          (NewDirectListing.currencyContractAddress listing)
          \<in> set (log_of (createListing w listing) self) \<and>
        (\<exists>params.
           sent ''createListing'' (log_of (createListing w listing) self) =
             [(MarketplaceDirect.contractWrapper self, [ArgStruct params],
               Some [(''gasLimit'', 500000)])] \<and>
           ListingParametersStruct.buyoutPricePerToken params = BigNumberObj normalized \<and>
           reservePricePerToken params = BigNumberObj normalized \<and>
           ListingParametersStruct.listingType params = ListingType_Direct w)) \<and>
   ((c, args, ov) \<in> set (sent ''createListing'' (log_of (createListing w listing) self))
    \<longrightarrow> (\<exists>price params.
         normalizePriceValue w (getProvider w (MarketplaceDirect.contractWrapper self))
           (NewDirectListing.buyoutPricePerToken listing)
           (NewDirectListing.currencyContractAddress listing) = Inr price \<and>
         Call_normalizePriceValue (getProvider w (MarketplaceDirect.contractWrapper self))
           (NewDirectListing.buyoutPricePerToken listing)
           (NewDirectListing.currencyContractAddress listing)
           \<in> set (log_of (createListing w listing) self) \<and>
         args = [ArgStruct params] \<and>
         ListingParametersStruct.buyoutPricePerToken params = BigNumberObj price \<and>
         reservePricePerToken params = BigNumberObj price \<and>
         ListingParametersStruct.listingType params = ListingType_Direct w))"
proof (intro conjI impI)
  assume "validateNewListingParam w listing = Inr () \<and>
    getSignerAddress w (MarketplaceDirect.contractWrapper self) = Inr signer \<and>
    handleTokenApproval w (getSignerOrProvider w (MarketplaceDirect.contractWrapper self))
      (readContract_address w (MarketplaceDirect.contractWrapper self))
      (NewDirectListing.assetContractAddress listing) (NewDirectListing.tokenId listing)
      signer = Inr () \<and>
    normalizePriceValue w (getProvider w (MarketplaceDirect.contractWrapper self))
      (NewDirectListing.buyoutPricePerToken listing)
      (NewDirectListing.currencyContractAddress listing) = Inr normalized \<and>
    getBlock_latest_timestamp w (getProvider w (MarketplaceDirect.contractWrapper self))
      = Inr blockTime \<and>
    BigNumber_from w (JSNumber (max (startTimestamp listing div 1000) blockTime))
      = Inr (max (startTimestamp listing div 1000) blockTime)"
  then have l: "log_of (createListing w listing) self =
     [Call_getSignerAddress (MarketplaceDirect.contractWrapper self),
      Call_handleTokenApproval (getSignerOrProvider w (MarketplaceDirect.contractWrapper self))
        (readContract_address w (MarketplaceDirect.contractWrapper self))
        (NewDirectListing.assetContractAddress listing) (NewDirectListing.tokenId listing) signer,
      Call_normalizePriceValue (getProvider w (MarketplaceDirect.contractWrapper self))
        (NewDirectListing.buyoutPricePerToken listing)
        (NewDirectListing.currencyContractAddress listing),
      Call_getBlock (getProvider w (MarketplaceDirect.contractWrapper self)),
      Call_sendTransaction (MarketplaceDirect.contractWrapper self) ''createListing''
        [ArgStruct
           \<lparr>ListingParametersStruct.assetContract = NewDirectListing.assetContractAddress listing,
            tokenId = NewDirectListing.tokenId listing,
            buyoutPricePerToken = BigNumberObj normalized,
            currencyToAccept = NewDirectListing.currencyContractAddress listing,
            listingType = ListingType_Direct w,
            quantityToList = NewDirectListing.quantity listing,
            reservePricePerToken = BigNumberObj normalized,
            secondsUntilEndTime = listingDurationInSeconds listing,
            startTime = BigNumberObj (max (startTimestamp listing div 1000) blockTime)\<rparr>]
        (Some [(''gasLimit'', 500000)])]"
    using createListing_sends [of w listing self signer normalized blockTime] by blast
  show "Call_normalizePriceValue (getProvider w (MarketplaceDirect.contractWrapper self))
          (NewDirectListing.buyoutPricePerToken listing)
          (NewDirectListing.currencyContractAddress listing)
          \<in> set (log_of (createListing w listing) self)"
    by (simp add: l)
  show "\<exists>params.
           sent ''createListing'' (log_of (createListing w listing) self) =
             [(MarketplaceDirect.contractWrapper self, [ArgStruct params],
               Some [(''gasLimit'', 500000)])] \<and>
           ListingParametersStruct.buyoutPricePerToken params = BigNumberObj normalized \<and>
           reservePricePerToken params = BigNumberObj normalized \<and>
           ListingParametersStruct.listingType params = ListingType_Direct w"
    by (simp add: l)
next
  assume h: "(c, args, ov) \<in> set (sent ''createListing'' (log_of (createListing w listing) self))"
  from createListing_sent [OF h] createListing_normalizes [OF h]
  show "\<exists>price params.
         normalizePriceValue w (getProvider w (MarketplaceDirect.contractWrapper self))
           (NewDirectListing.buyoutPricePerToken listing)
           (NewDirectListing.currencyContractAddress listing) = Inr price \<and>
         Call_normalizePriceValue (getProvider w (MarketplaceDirect.contractWrapper self))
           (NewDirectListing.buyoutPricePerToken listing)
           (NewDirectListing.currencyContractAddress listing)
           \<in> set (log_of (createListing w listing) self) \<and>
         args = [ArgStruct params] \<and>
         ListingParametersStruct.buyoutPricePerToken params = BigNumberObj price \<and>
         reservePricePerToken params = BigNumberObj price \<and>
         ListingParametersStruct.listingType params = ListingType_Direct w"
    by fastforce
qed

theorem createListing_price_fields_witness:
  "Call_normalizePriceValue 10 ''1.5'' example_native
     \<in> set (log_of (createListing example_world example_new_listing) example_market) \<and>
   (\<exists>params.
      sent ''createListing'' (log_of (createListing example_world example_new_listing)
        example_market) = [(1, [ArgStruct params], Some [(''gasLimit'', 500000)])] \<and>
      ListingParametersStruct.buyoutPricePerToken params = BigNumberObj 1500 \<and>
      reservePricePerToken params = BigNumberObj 1500 \<and>
      ListingParametersStruct.listingType params = 0)"
  using createListing_price_fields [where w = example_world and listing = example_new_listing
      and self = example_market and signer = example_buyer and normalized = 1500
      and blockTime = 1700000000]
  by (simp add: example_world_def example_market_def example_new_listing_def
      BigNumber_from_def MAX_SAFE_def)

text \<open>
  Claim C9. Under the same conditions the \<open>startTime\<close> of the one \<open>createListing\<close>
  transaction sent is the larger of the listing's start timestamp in whole seconds
  (milliseconds divided by 1000, rounded down) and the timestamp of the latest block,
  so it is never earlier than that block's timestamp. And every \<open>createListing\<close>
  transaction \<open>createListing\<close> ever sends has such a start time.
\<close>

theorem createListing_start_time:
  "(validateNewListingParam w listing = Inr () \<and>
    getSignerAddress w (MarketplaceDirect.contractWrapper self) = Inr signer \<and>
    handleTokenApproval w (getSignerOrProvider w (MarketplaceDirect.contractWrapper self))
      (readContract_address w (MarketplaceDirect.contractWrapper self))
      (NewDirectListing.assetContractAddress listing) (NewDirectListing.tokenId listing)
      signer = Inr () \<and>
    normalizePriceValue w (getProvider w (MarketplaceDirect.contractWrapper self))
      (NewDirectListing.buyoutPricePerToken listing)
      (NewDirectListing.currencyContractAddress listing) = Inr normalized \<and>
    getBlock_latest_timestamp w (getProvider w (MarketplaceDirect.contractWrapper self))
      = Inr blockTime \<and>
    BigNumber_from w (JSNumber (max (startTimestamp listing div 1000) blockTime))
      = Inr (max (startTimestamp listing div 1000) blockTime)
    \<longrightarrow> (\<exists>params.
           sent ''createListing'' (log_of (createListing w listing) self) =
             [(MarketplaceDirect.contractWrapper self, [ArgStruct params],
               Some [(''gasLimit'', 500000)])] \<and>
           ListingParametersStruct.startTime params =
             BigNumberObj (max (startTimestamp listing div 1000) blockTime) \<and>
           blockTime \<le> max (startTimestamp listing div 1000) blockTime)) \<and>
   ((c, args, ov) \<in> set (sent ''createListing'' (log_of (createListing w listing) self))
    \<longrightarrow> (\<exists>latest params.
         getBlock_latest_timestamp w (getProvider w (MarketplaceDirect.contractWrapper self))
           = Inr latest \<and>
         args = [ArgStruct params] \<and>
         ListingParametersStruct.startTime params =
           BigNumberObj (max (startTimestamp listing div 1000) latest) \<and>
         latest \<le> max (startTimestamp listing div 1000) latest))"
proof (intro conjI impI)
  assume "validateNewListingParam w listing = Inr () \<and>
    getSignerAddress w (MarketplaceDirect.contractWrapper self) = Inr signer \<and>
    handleTokenApproval w (getSignerOrProvider w (MarketplaceDirect.contractWrapper self))
      (readContract_address w (MarketplaceDirect.contractWrapper self))
      (NewDirectListing.assetContractAddress listing) (NewDirectListing.tokenId listing)
      signer = Inr () \<and>
    normalizePriceValue w (getProvider w (MarketplaceDirect.contractWrapper self))
      (NewDirectListing.buyoutPricePerToken listing)
      (NewDirectListing.currencyContractAddress listing) = Inr normalized \<and>
    getBlock_latest_timestamp w (getProvider w (MarketplaceDirect.contractWrapper self))
      = Inr blockTime \<and>
    BigNumber_from w (JSNumber (max (startTimestamp listing div 1000) blockTime))
      = Inr (max (startTimestamp listing div 1000) blockTime)"
  then have l: "log_of (createListing w listing) self =
     [Call_getSignerAddress (MarketplaceDirect.contractWrapper self),
      Call_handleTokenApproval (getSignerOrProvider w (MarketplaceDirect.contractWrapper self))
        (readContract_address w (MarketplaceDirect.contractWrapper self))
        (NewDirectListing.assetContractAddress listing) (NewDirectListing.tokenId listing) signer,
      Call_normalizePriceValue (getProvider w (MarketplaceDirect.contractWrapper self))
        (NewDirectListing.buyoutPricePerToken listing)
        (NewDirectListing.currencyContractAddress listing),
      Call_getBlock (getProvider w (MarketplaceDirect.contractWrapper self)),
      Call_sendTransaction (MarketplaceDirect.contractWrapper self) ''createListing''
        [ArgStruct
           \<lparr>ListingParametersStruct.assetContract = NewDirectListing.assetContractAddress listing,
            tokenId = NewDirectListing.tokenId listing,
            buyoutPricePerToken = BigNumberObj normalized,
            currencyToAccept = NewDirectListing.currencyContractAddress listing,
            listingType = ListingType_Direct w,
            quantityToList = NewDirectListing.quantity listing,
            reservePricePerToken = BigNumberObj normalized,
            secondsUntilEndTime = listingDurationInSeconds listing,
            startTime = BigNumberObj (max (startTimestamp listing div 1000) blockTime)\<rparr>]
        (Some [(''gasLimit'', 500000)])]"
    using createListing_sends [of w listing self signer normalized blockTime] by blast
  show "\<exists>params.
           sent ''createListing'' (log_of (createListing w listing) self) =
             [(MarketplaceDirect.contractWrapper self, [ArgStruct params],
               Some [(''gasLimit'', 500000)])] \<and>
           ListingParametersStruct.startTime params =
             BigNumberObj (max (startTimestamp listing div 1000) blockTime) \<and>
           blockTime \<le> max (startTimestamp listing div 1000) blockTime"
    by (simp add: l)
next
  assume h: "(c, args, ov) \<in> set (sent ''createListing'' (log_of (createListing w listing) self))"
  from createListing_sent [OF h]
  show "\<exists>latest params.
         getBlock_latest_timestamp w (getProvider w (MarketplaceDirect.contractWrapper self))
           = Inr latest \<and>
         args = [ArgStruct params] \<and>
         ListingParametersStruct.startTime params =
           BigNumberObj (max (startTimestamp listing div 1000) latest) \<and>
         latest \<le> max (startTimestamp listing div 1000) latest"
    by (fastforce simp: seconds_of_def)
qed

text \<open>
  Both branches: a start date before the latest block (in seconds 1600000000, raised to
  the block's 1700000000), and one after it (1800000000, kept).
\<close>

theorem createListing_start_time_witness:
  "(\<exists>params.
      sent ''createListing'' (log_of (createListing example_world example_new_listing)
        example_market) = [(1, [ArgStruct params], Some [(''gasLimit'', 500000)])] \<and>
      ListingParametersStruct.startTime params = BigNumberObj 1700000000) \<and>
   (\<exists>params.
      sent ''createListing'' (log_of (createListing example_world example_future_listing)
        example_market) = [(1, [ArgStruct params], Some [(''gasLimit'', 500000)])] \<and>
      ListingParametersStruct.startTime params = BigNumberObj 1800000000)"
  using createListing_start_time [where w = example_world and listing = example_new_listing
      and self = example_market and signer = example_buyer and normalized = 1500
      and blockTime = 1700000000]
    createListing_start_time [where w = example_world and listing = example_future_listing
      and self = example_market and signer = example_buyer and normalized = 1500
      and blockTime = 1700000000]
  by (simp add: example_world_def example_market_def example_new_listing_def
      example_future_listing_def BigNumber_from_def MAX_SAFE_def)

section \<open>Erc20BatchMintable.to\<close>




end
